theory Spec2Isabelle
  imports Main "HOL-Library.Word"
begin

section \<open>AgentAuth: identities, delegations and AAT tokens\<close>

text \<open>
  A shallow embedding of the AgentAuth core (\<^verbatim>\<open>identity.ts\<close>, \<^verbatim>\<open>delegation.ts\<close>,
  \<^verbatim>\<open>token.ts\<close>) and of the constraint enforcement of the React package's middleware.

  Conventions.
  \<^item> A JavaScript string is a \<^typ>\<open>string\<close> holding the UTF-8 encoding of its text; every
    separator the code splits on is ASCII, so splitting bytes and splitting UTF-16 units agree.
    Where the runtime reads the UTF-16 units of a string (the hexadecimal and base64 decoders),
    the units are computed from the text.
  \<^item> A \<^verbatim>\<open>Uint8Array\<close>/\<^verbatim>\<open>Buffer\<close> is a list of 8-bit words.
  \<^item> JavaScript numbers that hold counts and Unix times are mathematical integers; a double
    carries an integer exactly up to \<open>2 ^ 53\<close>, and statements about computed numbers say so.
  \<^item> \<^verbatim>\<open>throw new Error(msg)\<close> is \<open>Inl e\<close>, with one constructor of \<open>error\<close> per
    message; a value of a declared TypeScript interface is a record, an optional field an
    \<open>option\<close> (\<open>None\<close> is \<^verbatim>\<open>undefined\<close>).
\<close>

subsection \<open>Errors\<close>

datatype error =
    MalformedToken            \<comment> \<open>'Invalid AAT token format (expected 4 parts)', or JSON.parse throws\<close>
  | InvalidSignature          \<comment> \<open>'Invalid token signature'\<close>
  | TokenExpired              \<comment> \<open>'Token expired'\<close>
  | AudienceMismatch          \<comment> \<open>'Invalid audience: expected ..., got ...'\<close>
  | InsufficientScope         \<comment> \<open>'Missing required scopes'\<close>
  | InvalidDurationFormat     \<comment> \<open>'Invalid expiry format (use: 1h, 24h, 7d, etc.)'\<close>
  | InvalidDIDFormat          \<comment> \<open>'Invalid AgentAuth DID format'\<close>
  | InvalidKeyFormat          \<comment> \<open>thrown by ed25519.getPublicKey / ed25519.sign on bad key material\<close>
  | CryptoError               \<comment> \<open>thrown by ed25519.verify on malformed arguments\<close>
  | NoDelegation              \<comment> \<open>'No delegation in token'\<close>
  | DelegationExpired         \<comment> \<open>'Delegation expired'\<close>
  | DelegationNotYetValid     \<comment> \<open>'Delegation not yet valid'\<close>
  | MFARequired               \<comment> \<open>'MFA required but not provided'\<close>
  | SubdelegationNotAllowed   \<comment> \<open>'Subdelegation not allowed'\<close>
  | OutsideTimeWindow         \<comment> \<open>'Action outside allowed time window'\<close>

subsection \<open>Runtime: strings and Buffers\<close>

type_synonym byte = "8 word"
type_synonym bytes = "byte list"

text \<open>
  \<^verbatim>\<open>str.split(sep)\<close> with a one-character separator: the pieces between the separators, in
  order; a string without the separator is its own single piece.
\<close>

fun split :: "char \<Rightarrow> string \<Rightarrow> string list" where
  "split sep [] = [[]]"
| "split sep (c # cs) =
     (if c = sep then [] # split sep cs
      else (case split sep cs of p # ps \<Rightarrow> (c # p) # ps | [] \<Rightarrow> [[c]]))"

text \<open>
  \<^verbatim>\<open>a <= b\<close> on two strings compares them unit by unit. The operands here are ASCII clock
  times.
\<close>

fun str_le :: "string \<Rightarrow> string \<Rightarrow> bool" where
  "str_le [] ys = True"
| "str_le (x # xs) [] = False"
| "str_le (x # xs) (y # ys) =
     ((of_char x :: nat) < of_char y \<or> (x = y \<and> str_le xs ys))"

text \<open>
  \<^verbatim>\<open>Buffer.from(str, 'utf8')\<close>: the bytes of the string.
\<close>

definition Buffer_from_utf8 :: "string \<Rightarrow> bytes" where
  "Buffer_from_utf8 str = map (\<lambda>c. of_nat (of_char c)) str"

text \<open>Text of ASCII characters only: one byte below 0x80 per character.\<close>

definition is_ascii :: "string \<Rightarrow> bool" where
  "is_ascii s = list_all (\<lambda>c. (of_char c :: nat) < 128) s"

text \<open>
  \<^verbatim>\<open>buf.toString('utf8')\<close> decodes the bytes as UTF-8. A JavaScript string cannot hold an
  ill-formed sequence: each maximal ill-formed part becomes U+FFFD, whose UTF-8 encoding is
  EF BF BD. Well-formed sequences are: 00..7F; C2..DF and one continuation byte; E0..EF and two
  (with the second byte restricted after E0 and ED); F0..F4 and three (with the second byte
  restricted after F0 and F4).
\<close>

definition replacement :: bytes where
  "replacement = [0xEF, 0xBF, 0xBD]"

definition is_cont :: "byte \<Rightarrow> bool" where
  "is_cont b = (0x80 \<le> b \<and> b \<le> 0xBF)"

definition second_ok :: "byte \<Rightarrow> byte \<Rightarrow> bool" where
  "second_ok a b =
     (if a = 0xE0 then 0xA0 \<le> b \<and> b \<le> 0xBF
      else if a = 0xED then 0x80 \<le> b \<and> b \<le> 0x9F
      else if a = 0xF0 then 0x90 \<le> b \<and> b \<le> 0xBF
      else if a = 0xF4 then 0x80 \<le> b \<and> b \<le> 0x8F
      else is_cont b)"

fun utf8_scrub :: "bytes \<Rightarrow> bytes" where
  "utf8_scrub [] = []"
| "utf8_scrub (a # rest) =
     (if a < 0x80 then a # utf8_scrub rest
      else if 0xC2 \<le> a \<and> a \<le> 0xDF then
        (case rest of
           [] \<Rightarrow> replacement
         | b # r1 \<Rightarrow>
             if is_cont b then a # b # utf8_scrub r1 else replacement @ utf8_scrub rest)
      else if 0xE0 \<le> a \<and> a \<le> 0xEF then
        (case rest of
           [] \<Rightarrow> replacement
         | b # r1 \<Rightarrow>
             if second_ok a b then
               (case r1 of
                  [] \<Rightarrow> replacement
                | c # r2 \<Rightarrow>
                    if is_cont c then a # b # c # utf8_scrub r2
                    else replacement @ utf8_scrub r1)
             else replacement @ utf8_scrub rest)
      else if 0xF0 \<le> a \<and> a \<le> 0xF4 then
        (case rest of
           [] \<Rightarrow> replacement
         | b # r1 \<Rightarrow>
             if second_ok a b then
               (case r1 of
                  [] \<Rightarrow> replacement
                | c # r2 \<Rightarrow>
                    if is_cont c then
                      (case r2 of
                         [] \<Rightarrow> replacement
                       | d # r3 \<Rightarrow>
                           if is_cont d then a # b # c # d # utf8_scrub r3
                           else replacement @ utf8_scrub r2)
                    else replacement @ utf8_scrub r1)
             else replacement @ utf8_scrub rest)
      else replacement @ utf8_scrub rest)"

definition Buffer_toString_utf8 :: "bytes \<Rightarrow> string" where
  "Buffer_toString_utf8 buf = map (\<lambda>b. char_of (unat b)) (utf8_scrub buf)"

text \<open>
  The UTF-16 code units of the JavaScript string with a given UTF-8 text: one unit per
  sequence of one, two or three bytes, a pair of surrogates per sequence of four. A list of
  characters that is not well-formed UTF-8 is the text of no JavaScript string; it is given
  U+FFFD for a byte that begins no sequence.
\<close>

definition cont_char :: "char \<Rightarrow> bool" where
  "cont_char c = (0x80 \<le> (of_char c :: nat) \<and> (of_char c :: nat) \<le> 0xBF)"

fun utf16_units :: "string \<Rightarrow> nat list" where
  "utf16_units [] = []"
| "utf16_units (a # rest) =
     (let n = of_char a :: nat in
      if n < 0x80 then n # utf16_units rest
      else if 0xC2 \<le> n \<and> n \<le> 0xDF then
        (case rest of
           b # r1 \<Rightarrow>
             if cont_char b
             then ((n - 0xC0) * 64 + (of_char b - 0x80)) # utf16_units r1
             else 0xFFFD # utf16_units rest
         | _ \<Rightarrow> 0xFFFD # utf16_units rest)
      else if 0xE0 \<le> n \<and> n \<le> 0xEF then
        (case rest of
           b # c # r2 \<Rightarrow>
             if cont_char b \<and> cont_char c
             then ((n - 0xE0) * 4096 + (of_char b - 0x80) * 64 + (of_char c - 0x80))
                  # utf16_units r2
             else 0xFFFD # utf16_units rest
         | _ \<Rightarrow> 0xFFFD # utf16_units rest)
      else if 0xF0 \<le> n \<and> n \<le> 0xF4 then
        (case rest of
           b # c # d # r3 \<Rightarrow>
             if cont_char b \<and> cont_char c \<and> cont_char d
             then (let cp = (n - 0xF0) * 262144 + (of_char b - 0x80) * 4096
                            + (of_char c - 0x80) * 64 + (of_char d - 0x80) - 0x10000
                   in (0xD800 + cp div 1024) # (0xDC00 + cp mod 1024) # utf16_units r3)
             else 0xFFFD # utf16_units rest
         | _ \<Rightarrow> 0xFFFD # utf16_units rest)
      else 0xFFFD # utf16_units rest)"

text \<open>
  Node's hexadecimal and base64 decoders read a string unit by unit and keep the low byte of
  each unit: U+0130 is read as the digit 0 (0x30).
\<close>

definition low_bytes :: "string \<Rightarrow> string" where
  "low_bytes str = map (\<lambda>u. char_of (u mod 256)) (utf16_units str)"

text \<open>
  \<^verbatim>\<open>buf.toString('base64url')\<close>: RFC 4648 section 5 without padding. Three bytes give four
  six-bit groups; a last group of two bytes gives three characters, of one byte two.
\<close>

definition base64url_table :: string where
  "base64url_table = ''ABCDEFGHIJKLMNOPQRSTUVWXYZabcdefghijklmnopqrstuvwxyz0123456789-_''"

definition b64_char :: "nat \<Rightarrow> char" where
  "b64_char n = base64url_table ! (n mod 64)"

fun b64_groups :: "bytes \<Rightarrow> nat list" where
  "b64_groups (a # b # c # rest) =
     (unat a div 4) # ((unat a mod 4) * 16 + unat b div 16) #
     ((unat b mod 16) * 4 + unat c div 64) # (unat c mod 64) # b64_groups rest"
| "b64_groups [a, b] =
     [unat a div 4, (unat a mod 4) * 16 + unat b div 16, (unat b mod 16) * 4]"
| "b64_groups [a] = [unat a div 4, (unat a mod 4) * 16]"
| "b64_groups [] = []"

definition Buffer_toString_base64url :: "bytes \<Rightarrow> string" where
  "Buffer_toString_base64url buf = map b64_char (b64_groups buf)"

text \<open>
  \<^verbatim>\<open>Buffer.from(str, 'base64url')\<close>: Node's decoder reads the low byte of each unit,
  accepts the characters of both base64 alphabets, skips every other character and stops at
  the first \<^verbatim>\<open>=\<close>. It never throws. A dangling single six-bit group gives no byte.
\<close>

definition unbase64 :: "char \<Rightarrow> nat option" where
  "unbase64 c =
     (let n = of_char c :: nat in
      if 65 \<le> n \<and> n \<le> 90 then Some (n - 65)
      else if 97 \<le> n \<and> n \<le> 122 then Some (n - 71)
      else if 48 \<le> n \<and> n \<le> 57 then Some (n + 4)
      else if c = CHR ''-'' \<or> c = CHR ''+'' then Some 62
      else if c = CHR ''_'' \<or> c = CHR ''/'' then Some 63
      else None)"

definition b64_sextets :: "string \<Rightarrow> nat list" where
  "b64_sextets s = List.map_filter unbase64 (takeWhile (\<lambda>c. c \<noteq> CHR ''='') s)"

fun b64_ungroup :: "nat list \<Rightarrow> bytes" where
  "b64_ungroup (w # x # y # z # rest) =
     of_nat (w * 4 + x div 16) # of_nat ((x mod 16) * 16 + y div 4) #
     of_nat ((y mod 4) * 64 + z) # b64_ungroup rest"
| "b64_ungroup [w, x, y] = [of_nat (w * 4 + x div 16), of_nat ((x mod 16) * 16 + y div 4)]"
| "b64_ungroup [w, x] = [of_nat (w * 4 + x div 16)]"
| "b64_ungroup [w] = []"
| "b64_ungroup [] = []"

definition Buffer_from_base64url :: "string \<Rightarrow> bytes" where
  "Buffer_from_base64url str = b64_ungroup (b64_sextets (low_bytes str))"

text \<open>
  \<^verbatim>\<open>buf.toString('hex')\<close> writes two lower-case digits per byte.
  \<^verbatim>\<open>Buffer.from(str, 'hex')\<close> reads the low byte of each unit, takes the units in pairs of
  hexadecimal digits and stops, without an error, at the first pair that is not two
  hexadecimal digits; a last single unit is dropped.
\<close>

definition hex_table :: string where
  "hex_table = ''0123456789abcdef''"

definition hex_char :: "nat \<Rightarrow> char" where
  "hex_char n = hex_table ! (n mod 16)"

definition unhex :: "char \<Rightarrow> nat option" where
  "unhex c =
     (let n = of_char c :: nat in
      if 48 \<le> n \<and> n \<le> 57 then Some (n - 48)
      else if 97 \<le> n \<and> n \<le> 102 then Some (n - 87)
      else if 65 \<le> n \<and> n \<le> 70 then Some (n - 55)
      else None)"

fun Buffer_toString_hex :: "bytes \<Rightarrow> string" where
  "Buffer_toString_hex [] = []"
| "Buffer_toString_hex (b # rest) =
     hex_char (unat b div 16) # hex_char (unat b mod 16) # Buffer_toString_hex rest"

fun hex_pairs :: "string \<Rightarrow> bytes" where
  "hex_pairs (a # b # rest) =
     (case unhex a of
        None \<Rightarrow> []
      | Some x \<Rightarrow>
          (case unhex b of
             None \<Rightarrow> []
           | Some y \<Rightarrow> of_nat (x * 16 + y) # hex_pairs rest))"
| "hex_pairs [a] = []"
| "hex_pairs [] = []"

definition Buffer_from_hex :: "string \<Rightarrow> bytes" where
  "Buffer_from_hex str = hex_pairs (low_bytes str)"

text \<open>A string of hexadecimal digits, two per byte: what a strict decoder would accept.\<close>

definition well_formed_hex :: "string \<Rightarrow> bool" where
  "well_formed_hex s = (even (length s) \<and> list_all (\<lambda>c. unhex c \<noteq> None) s)"

subsection \<open>token.ts: parseExpiry\<close>

text \<open>
  \<^verbatim>\<open>
  function parseExpiry(expiry: string): number {
    const match = expiry.match(/^(\d+)([smhd])$/);
    if (!match) throw new Error('Invalid expiry format (use: 1h, 24h, 7d, etc.)');
    const value = parseInt(match[1]);
    const unit = match[2];
    const multipliers = { s: 1, m: 60, h: 3600, d: 86400 };
    return value * multipliers[unit];
  }
  \<close>
  The pattern has no flags: \<^verbatim>\<open>\d\<close> is an ASCII digit, \<^verbatim>\<open>^\<close> and \<^verbatim>\<open>$\<close> are the two ends
  of the input. The greedy \<^verbatim>\<open>\d+\<close> takes the longest run of digits; what is left must be
  exactly one unit letter.
\<close>

definition is_digit :: "char \<Rightarrow> bool" where
  "is_digit c = (48 \<le> (of_char c :: nat) \<and> (of_char c :: nat) \<le> 57)"

definition expiry_match :: "string \<Rightarrow> (string \<times> char) option" where
  "expiry_match expiry =
     (let ds = takeWhile is_digit expiry; rest = dropWhile is_digit expiry
      in case rest of
           [u] \<Rightarrow> if ds \<noteq> [] \<and> u \<in> set ''smhd'' then Some (ds, u) else None
         | _ \<Rightarrow> None)"

definition parseInt :: "string \<Rightarrow> nat" where
  "parseInt ds = foldl (\<lambda>acc c. 10 * acc + ((of_char c :: nat) - 48)) 0 ds"

definition multipliers :: "(char \<times> nat) list" where
  "multipliers = [(CHR ''s'', 1), (CHR ''m'', 60), (CHR ''h'', 3600), (CHR ''d'', 86400)]"

definition parseExpiry :: "string \<Rightarrow> error + nat" where
  "parseExpiry expiry =
     (case expiry_match expiry of
        None \<Rightarrow> Inl InvalidDurationFormat
      | Some (ds, unit) \<Rightarrow>
          (case map_of multipliers unit of
             Some m \<Rightarrow> Inr (parseInt ds * m)
           | None \<Rightarrow> Inl InvalidDurationFormat))"

text \<open>The shape the specification describes: a count, then one unit letter, nothing else.\<close>

definition duration_shape :: "string \<Rightarrow> bool" where
  "duration_shape s =
     (s \<noteq> [] \<and> butlast s \<noteq> [] \<and> list_all is_digit (butlast s) \<and> last s \<in> set ''smhd'')"

definition unit_seconds :: "char \<Rightarrow> nat" where
  "unit_seconds u =
     (if u = CHR ''s'' then 1 else if u = CHR ''m'' then 60
      else if u = CHR ''h'' then 3600 else 86400)"

subsection \<open>Runtime: the Ed25519 library\<close>

text \<open>
  \<^verbatim>\<open>@noble/ed25519\<close> is not part of the repository: its three functions are parameters.
  \<open>None\<close> is a thrown exception. \<open>ed_sign lib message privateKey\<close> and
  \<open>ed_verify lib signature message publicKey\<close> take their arguments in the library's order.
\<close>

record ed25519 =
  ed_getPublicKey :: "bytes \<Rightarrow> bytes option"
  ed_sign :: "bytes \<Rightarrow> bytes \<Rightarrow> bytes option"
  ed_verify :: "bytes \<Rightarrow> bytes \<Rightarrow> bytes \<Rightarrow> bool option"

text \<open>
  The library's contract on key sizes: a secret key is 32 bytes, and nothing else has a
  public key.
\<close>

definition secret_key_contract :: "ed25519 \<Rightarrow> bool" where
  "secret_key_contract lib = (\<forall>sk. (ed_getPublicKey lib sk \<noteq> None) = (length sk = 32))"

subsection \<open>identity.ts\<close>

text \<open>
  The class has four fields; its constructor is private, so every instance comes from
  \<^verbatim>\<open>create\<close>, \<^verbatim>\<open>fromPrivateKey\<close> or \<^verbatim>\<open>fromJSON\<close>. The metadata is a free-form
  object that the class only stores: its type is a parameter.
\<close>

record 'm AgentIdentity =
  privateKey :: bytes
  publicKey :: bytes
  did :: string
  metadata :: "'m option"

record 'm IdentityJSON =
  json_did :: string
  json_privateKey :: string
  json_publicKey :: string
  json_metadata :: "'m option"
  json_created :: string

definition publicKeyToDID :: "bytes \<Rightarrow> string" where
  "publicKeyToDID pk = ''did:agentauth:ed25519:'' @ Buffer_toString_base64url pk"

definition didToPublicKey :: "string \<Rightarrow> error + bytes" where
  "didToPublicKey d =
     (case split (CHR '':'') d of
        [p0, p1, p2, p3] \<Rightarrow>
          if p0 \<noteq> ''did'' \<or> p1 \<noteq> ''agentauth'' \<or> p2 \<noteq> ''ed25519''
          then Inl InvalidDIDFormat
          else Inr (Buffer_from_base64url p3)
      | _ \<Rightarrow> Inl InvalidDIDFormat)"

text \<open>
  \<^verbatim>\<open>create\<close> draws 32 random bytes (the argument \<open>random\<close>); \<^verbatim>\<open>fromPrivateKey\<close> decodes
  the hexadecimal string. Neither checks anything itself: a failure is the library's.
\<close>

definition AgentIdentity_create ::
  "ed25519 \<Rightarrow> bytes \<Rightarrow> 'm option \<Rightarrow> error + 'm AgentIdentity" where
  "AgentIdentity_create lib random md =
     (case ed_getPublicKey lib random of
        None \<Rightarrow> Inl InvalidKeyFormat
      | Some pk \<Rightarrow>
          Inr \<lparr>privateKey = random, publicKey = pk, did = publicKeyToDID pk, metadata = md\<rparr>)"

definition fromPrivateKey ::
  "ed25519 \<Rightarrow> string \<Rightarrow> 'm option \<Rightarrow> error + 'm AgentIdentity" where
  "fromPrivateKey lib privateKeyHex md =
     (let sk = Buffer_from_hex privateKeyHex
      in case ed_getPublicKey lib sk of
           None \<Rightarrow> Inl InvalidKeyFormat
         | Some pk \<Rightarrow>
             Inr \<lparr>privateKey = sk, publicKey = pk, did = publicKeyToDID pk, metadata = md\<rparr>)"

definition AgentIdentity_sign :: "ed25519 \<Rightarrow> 'm AgentIdentity \<Rightarrow> bytes \<Rightarrow> error + bytes" where
  "AgentIdentity_sign lib this data =
     (case ed_sign lib data (privateKey this) of
        None \<Rightarrow> Inl InvalidKeyFormat
      | Some s \<Rightarrow> Inr s)"

definition AgentIdentity_verify :: "ed25519 \<Rightarrow> bytes \<Rightarrow> bytes \<Rightarrow> string \<Rightarrow> error + bool" where
  "AgentIdentity_verify lib sig message d =
     (case didToPublicKey d of
        Inl e \<Rightarrow> Inl e
      | Inr pk \<Rightarrow>
          (case ed_verify lib sig message pk of
             None \<Rightarrow> Inl CryptoError
           | Some ok \<Rightarrow> Inr ok))"

definition exportPrivateKey :: "'m AgentIdentity \<Rightarrow> string" where
  "exportPrivateKey this = Buffer_toString_hex (privateKey this)"

text \<open>
  \<^verbatim>\<open>toJSON\<close> stamps \<^verbatim>\<open>new Date().toISOString()\<close>, the time of the call (the argument
  \<open>nowISO\<close>), as \<^verbatim>\<open>created\<close>. \<^verbatim>\<open>fromJSON\<close> reads the private key and the metadata only.
\<close>

definition toJSON :: "string \<Rightarrow> 'm AgentIdentity \<Rightarrow> 'm IdentityJSON" where
  "toJSON nowISO this =
     \<lparr>json_did = did this,
      json_privateKey = exportPrivateKey this,
      json_publicKey = Buffer_toString_hex (publicKey this),
      json_metadata = metadata this,
      json_created = nowISO\<rparr>"

definition fromJSON :: "ed25519 \<Rightarrow> 'm IdentityJSON \<Rightarrow> error + 'm AgentIdentity" where
  "fromJSON lib json = fromPrivateKey lib (json_privateKey json) (json_metadata json)"

subsection \<open>delegation.ts\<close>

text \<open>
  The interfaces \<^verbatim>\<open>TimeWindow\<close>, \<^verbatim>\<open>DelegationConstraints\<close>, \<^verbatim>\<open>DelegationProof\<close> and
  \<^verbatim>\<open>DelegationToken\<close>. The nested objects \<^verbatim>\<open>delegator\<close>, \<^verbatim>\<open>delegate\<close> and \<^verbatim>\<open>scope\<close>
  are flattened into prefixed fields.

  A delegation reaches the middleware as a plain object, and the middleware reads properties
  that the core interfaces do not declare: \<^verbatim>\<open>window.start\<close> and \<^verbatim>\<open>window.end\<close> (declared by
  the React package's own constraint type), \<^verbatim>\<open>delegation.expiresAt\<close> and
  \<^verbatim>\<open>delegation.notBefore\<close>. The records carry them as optional fields (\<open>tw_start\<close>,
  \<open>tw_end\<close>, \<open>expiresAt\<close>, \<open>top_notBefore\<close>), \<open>None\<close> where the object has no such
  property.
\<close>

record TimeWindow =
  days :: "string list option"
  hours :: "string option"
  tz :: "string option"
  tw_start :: "string option"
  tw_end :: "string option"

record DelegationConstraints =
  notBefore :: "string option"
  notAfter :: "string option"
  maxUses :: "nat option"
  maxUsesPerHour :: "nat option"
  requireMFA :: "bool option"
  allowSubdelegation :: "bool option"
  ipAllowlist :: "string list option"
  timeWindows :: "TimeWindow list option"

record Revocation =
  endpoint :: string
  rev_method :: "string option"
  cacheTTL :: "nat option"

record DelegationProof =
  proof_type :: string
  created :: string
  verificationMethod :: string
  proofPurpose :: string
  proofValue :: string

record DelegationToken =
  token_type :: string
  token_id :: string
  delegator_id :: string
  delegator_proof :: "string option"
  delegate_id :: string
  delegate_platform :: "string option"
  delegate_name :: "string option"
  scope_include :: "string list"
  scope_exclude :: "string list option"
  scope_audiences :: "string list option"
  constraints :: DelegationConstraints
  revocation :: "Revocation option"
  delegation_proof :: DelegationProof
  expiresAt :: "int option"
  top_notBefore :: "int option"

record CreateDelegationOptions =
  delegatorDID :: string
  delegateDID :: string
  cd_scopes :: "string list"
  cd_audiences :: "string list option"
  cd_platform :: "string option"
  cd_agentName :: "string option"
  cd_constraints :: "DelegationConstraints option"
  cd_revocation :: "Revocation option"

definition no_constraints :: DelegationConstraints where
  "no_constraints =
     \<lparr>notBefore = None, notAfter = None, maxUses = None, maxUsesPerHour = None,
      requireMFA = None, allowSubdelegation = None, ipAllowlist = None, timeWindows = None\<rparr>"

text \<open>
  \<^verbatim>\<open>createDelegation\<close> builds the object literal below and nothing more. \<open>uuid\<close> is
  \<^verbatim>\<open>crypto.randomUUID()\<close>, \<open>nowISO\<close> is \<^verbatim>\<open>new Date().toISOString()\<close>.
\<close>

definition createDelegation ::
  "string \<Rightarrow> string \<Rightarrow> CreateDelegationOptions \<Rightarrow> DelegationToken" where
  "createDelegation uuid nowISO options =
     \<lparr>token_type = ''DelegationToken'',
      token_id = ''urn:uuid:'' @ uuid,
      delegator_id = delegatorDID options,
      delegator_proof = None,
      delegate_id = delegateDID options,
      delegate_platform = cd_platform options,
      delegate_name = cd_agentName options,
      scope_include = cd_scopes options,
      scope_exclude = None,
      scope_audiences = cd_audiences options,
      constraints = (case cd_constraints options of None \<Rightarrow> no_constraints | Some c \<Rightarrow> c),
      revocation = cd_revocation options,
      delegation_proof =
        \<lparr>proof_type = ''Ed25519Signature2020'',
         created = nowISO,
         verificationMethod = delegatorDID options @ ''#keys-1'',
         proofPurpose = ''assertionMethod'',
         proofValue = ''TODO_IMPLEMENT_SIGNING''\<rparr>,
      expiresAt = None,
      top_notBefore = None\<rparr>"

subsection \<open>token.ts: AATToken\<close>

record TokenHeader =
  alg :: string
  hdr_typ :: string
  kid :: string

record TokenPayload =
  iss :: string
  sub :: string
  aud :: string
  iat :: int
  exp :: int
  nonce :: string
  scope :: "string list"
  act_sub :: string

record AATToken =
  header :: TokenHeader
  payload :: TokenPayload
  delegationChain :: "DelegationToken list"
  signature :: bytes

record 'm CreateTokenOptions =
  identity :: "'m AgentIdentity"
  delegator :: string
  audience :: string
  scopes :: "string list"
  opt_delegationChain :: "DelegationToken list option"
  expiresIn :: "string option"

record VerifyOptions =
  vo_audience :: "string option"
  vo_requiredScopes :: "string list option"

text \<open>
  \<^verbatim>\<open>JSON.stringify\<close> and \<^verbatim>\<open>JSON.parse\<close> belong to the runtime: they are parameters, one
  pair per declared type of document. A parser returns \<open>None\<close> where \<^verbatim>\<open>JSON.parse\<close>
  throws. Only documents of the declared TypeScript types are modelled.
\<close>

record JSON =
  stringify_header :: "TokenHeader \<Rightarrow> string"
  stringify_payload :: "TokenPayload \<Rightarrow> string"
  stringify_chain :: "DelegationToken list \<Rightarrow> string"
  parse_header :: "string \<Rightarrow> TokenHeader option"
  parse_payload :: "string \<Rightarrow> TokenPayload option"
  parse_chain :: "string \<Rightarrow> DelegationToken list option"

definition base64urlEncode :: "string \<Rightarrow> string" where
  "base64urlEncode str = Buffer_toString_base64url (Buffer_from_utf8 str)"

definition base64urlDecode :: "string \<Rightarrow> string" where
  "base64urlDecode str = Buffer_toString_utf8 (Buffer_from_base64url str)"

definition generateNonce :: "bytes \<Rightarrow> string" where
  "generateNonce random = Buffer_toString_hex random"

text \<open>
  \<^verbatim>\<open>AATToken.create\<close>. \<open>dateNow\<close> is \<^verbatim>\<open>Date.now()\<close> in milliseconds, \<open>random\<close> the 16
  bytes of \<^verbatim>\<open>crypto.getRandomValues\<close>.
\<close>

definition AATToken_create ::
  "ed25519 \<Rightarrow> JSON \<Rightarrow> int \<Rightarrow> bytes \<Rightarrow> 'm CreateTokenOptions \<Rightarrow> error + string" where
  "AATToken_create lib js dateNow random options =
     (let chain = (case opt_delegationChain options of None \<Rightarrow> [] | Some c \<Rightarrow> c);
          expiry = (case expiresIn options of None \<Rightarrow> ''1h'' | Some e \<Rightarrow> e);
          now = dateNow div 1000
      in case parseExpiry expiry of
           Inl e \<Rightarrow> Inl e
         | Inr seconds \<Rightarrow>
             (let hdr = \<lparr>alg = ''EdDSA'', hdr_typ = ''AAT'',
                         kid = did (identity options) @ ''#keys-1''\<rparr>;
                  pl = \<lparr>iss = did (identity options),
                        sub = delegator options,
                        aud = audience options,
                        iat = now,
                        exp = now + int seconds,
                        nonce = generateNonce random,
                        scope = scopes options,
                        act_sub = did (identity options)\<rparr>;
                  headerB64 = base64urlEncode (stringify_header js hdr);
                  payloadB64 = base64urlEncode (stringify_payload js pl);
                  delegationB64 = base64urlEncode (stringify_chain js chain);
                  signingInput = headerB64 @ ''.'' @ payloadB64 @ ''.'' @ delegationB64
              in case AgentIdentity_sign lib (identity options) (Buffer_from_utf8 signingInput) of
                   Inl e \<Rightarrow> Inl e
                 | Inr sig \<Rightarrow> Inr (signingInput @ ''.'' @ Buffer_toString_base64url sig)))"

text \<open>
  The text that \<open>AATToken_create\<close> signs for a header, a payload and a delegation chain:
  the three encoded documents, joined by dots.
\<close>

definition signing_input ::
  "JSON \<Rightarrow> TokenHeader \<Rightarrow> TokenPayload \<Rightarrow> DelegationToken list \<Rightarrow> string" where
  "signing_input js hdr pl chain =
     base64urlEncode (stringify_header js hdr) @ ''.'' @
     base64urlEncode (stringify_payload js pl) @ ''.'' @
     base64urlEncode (stringify_chain js chain)"

text \<open>
  \<^verbatim>\<open>AATToken.verify\<close>. The gates in source order: four parts; the three JSON documents; the
  signature; the expiry; the audience, when the option is a non-empty string; the scopes, when
  the option is given. The signature handed to the library is
  \<^verbatim>\<open>Buffer.from(base64urlDecode(signatureB64), 'utf8')\<close>.
\<close>

definition AATToken_verify ::
  "ed25519 \<Rightarrow> JSON \<Rightarrow> int \<Rightarrow> string \<Rightarrow> VerifyOptions \<Rightarrow> error + AATToken" where
  "AATToken_verify lib js dateNow token options =
     (case split (CHR ''.'') token of
        [headerB64, payloadB64, delegationB64, signatureB64] \<Rightarrow>
          (case parse_header js (base64urlDecode headerB64) of
             None \<Rightarrow> Inl MalformedToken
           | Some hdr \<Rightarrow>
          (case parse_payload js (base64urlDecode payloadB64) of
             None \<Rightarrow> Inl MalformedToken
           | Some pl \<Rightarrow>
          (case parse_chain js (base64urlDecode delegationB64) of
             None \<Rightarrow> Inl MalformedToken
           | Some chain \<Rightarrow>
             (let sig = Buffer_from_utf8 (base64urlDecode signatureB64);
                  signingInput = headerB64 @ ''.'' @ payloadB64 @ ''.'' @ delegationB64
              in case AgentIdentity_verify lib sig (Buffer_from_utf8 signingInput) (iss pl) of
                   Inl e \<Rightarrow> Inl e
                 | Inr isValid \<Rightarrow>
                     if \<not> isValid then Inl InvalidSignature
                     else if exp pl < dateNow div 1000 then Inl TokenExpired
                     else if (case vo_audience options of
                                None \<Rightarrow> False
                              | Some a \<Rightarrow> a \<noteq> [] \<and> aud pl \<noteq> a)
                       then Inl AudienceMismatch
                     else if (case vo_requiredScopes options of
                                None \<Rightarrow> False
                              | Some required \<Rightarrow>
                                  \<not> list_all (\<lambda>s. s \<in> set (scope pl)) required)
                       then Inl InsufficientScope
                     else Inr \<lparr>header = hdr, payload = pl, delegationChain = chain,
                               signature = sig\<rparr>))))
      | _ \<Rightarrow> Inl MalformedToken)"

definition getDelegator :: "AATToken \<Rightarrow> string" where
  "getDelegator this = sub (payload this)"

definition getAgent :: "AATToken \<Rightarrow> string" where
  "getAgent this = iss (payload this)"

definition getScopes :: "AATToken \<Rightarrow> string list" where
  "getScopes this = scope (payload this)"

definition hasScope :: "AATToken \<Rightarrow> string \<Rightarrow> bool" where
  "hasScope this s = (s \<in> set (scope (payload this)))"

text \<open>
  What the gates of \<^verbatim>\<open>AATToken.verify\<close> see of a token: the parsed payload, and the outcome
  of the signature check.
\<close>

definition token_payload :: "JSON \<Rightarrow> string \<Rightarrow> TokenPayload option" where
  "token_payload js token =
     (case split (CHR ''.'') token of
        [headerB64, payloadB64, delegationB64, signatureB64] \<Rightarrow>
          (case parse_header js (base64urlDecode headerB64) of
             None \<Rightarrow> None
           | Some hdr \<Rightarrow>
          (case parse_payload js (base64urlDecode payloadB64) of
             None \<Rightarrow> None
           | Some pl \<Rightarrow>
          (case parse_chain js (base64urlDecode delegationB64) of
             None \<Rightarrow> None
           | Some chain \<Rightarrow> Some pl)))
      | _ \<Rightarrow> None)"

definition signature_check :: "ed25519 \<Rightarrow> JSON \<Rightarrow> string \<Rightarrow> (error + bool) option" where
  "signature_check lib js token =
     (case token_payload js token of
        None \<Rightarrow> None
      | Some pl \<Rightarrow>
          (case split (CHR ''.'') token of
             [headerB64, payloadB64, delegationB64, signatureB64] \<Rightarrow>
               Some (AgentIdentity_verify lib
                       (Buffer_from_utf8 (base64urlDecode signatureB64))
                       (Buffer_from_utf8 (headerB64 @ ''.'' @ payloadB64 @ ''.'' @ delegationB64))
                       (iss pl))
           | _ \<Rightarrow> None))"

subsection \<open>middleware.ts: verifyAgent and enforceConstraints\<close>

record VerifyAgentOptions =
  va_audience :: string
  va_requiredScopes :: "string list"
  va_enforceConstraints :: "bool option"

record VerifiedAgent =
  agentDID :: string
  agent_delegatorDID :: string
  agent_scopes :: "string list"
  agent_delegation :: DelegationToken
  agent_token :: AATToken

text \<open>
  \<^verbatim>\<open>currentTime >= window.start && currentTime <= window.end\<close>: a comparison with
  \<^verbatim>\<open>undefined\<close> is false.
\<close>

definition in_window :: "string \<Rightarrow> TimeWindow \<Rightarrow> bool" where
  "in_window currentTime w =
     ((case tw_start w of None \<Rightarrow> False | Some s \<Rightarrow> str_le s currentTime)
      \<and> (case tw_end w of None \<Rightarrow> False | Some e \<Rightarrow> str_le currentTime e))"

text \<open>
  \<^verbatim>\<open>enforceConstraints\<close>. \<open>dateNow\<close> is \<^verbatim>\<open>Date.now()\<close>, \<open>timeString\<close> is
  \<^verbatim>\<open>new Date().toTimeString()\<close>, the server's local clock time. A number is truthy when it is
  not zero. The branches for \<^verbatim>\<open>maxUses\<close>, \<^verbatim>\<open>maxUsesPerHour\<close> and \<^verbatim>\<open>ipAllowlist\<close> are
  empty in the source.
\<close>

definition enforceConstraints ::
  "int \<Rightarrow> string \<Rightarrow> DelegationToken \<Rightarrow> AATToken \<Rightarrow> error + unit" where
  "enforceConstraints dateNow timeString delegation token =
     (let cs = constraints delegation; now = dateNow
      in if (case expiresAt delegation of None \<Rightarrow> False | Some e \<Rightarrow> e \<noteq> 0 \<and> e < now)
           then Inl DelegationExpired
         else if (case top_notBefore delegation of None \<Rightarrow> False | Some n \<Rightarrow> n \<noteq> 0 \<and> n > now)
           then Inl DelegationNotYetValid
         else if requireMFA cs = Some True
           then Inl MFARequired
         else if allowSubdelegation cs = Some False \<and> length (delegationChain token) > 1
           then Inl SubdelegationNotAllowed
         else (case timeWindows cs of
                 None \<Rightarrow> Inr ()
               | Some ws \<Rightarrow>
                   if length ws > 0 then
                     (let currentTime = take 5 timeString
                      in if list_ex (in_window currentTime) ws then Inr ()
                         else Inl OutsideTimeWindow)
                   else Inr ()))"

definition verifyAgent ::
  "ed25519 \<Rightarrow> JSON \<Rightarrow> int \<Rightarrow> string \<Rightarrow> string \<Rightarrow> VerifyAgentOptions \<Rightarrow> error + VerifiedAgent"
  where
  "verifyAgent lib js dateNow timeString token options =
     (case AATToken_verify lib js dateNow token
             \<lparr>vo_audience = Some (va_audience options),
              vo_requiredScopes = Some (va_requiredScopes options)\<rparr> of
        Inl e \<Rightarrow> Inl e
      | Inr verified \<Rightarrow>
          (case delegationChain verified of
             [] \<Rightarrow> Inl NoDelegation
           | delegation # others \<Rightarrow>
               (case (if va_enforceConstraints options \<noteq> Some False
                      then enforceConstraints dateNow timeString delegation verified
                      else Inr ()) of
                  Inl e \<Rightarrow> Inl e
                | Inr u \<Rightarrow>
                    Inr \<lparr>agentDID = getAgent verified,
                         agent_delegatorDID = getDelegator verified,
                         agent_scopes = getScopes verified,
                         agent_delegation = delegation,
                         agent_token = verified\<rparr>)))"

subsection \<open>Concrete values for the examples\<close>

text \<open>
  A stand-in for the signature library, to run the model on concrete inputs. It has the
  interface and the key sizes of Ed25519 and none of its security: the public key is the
  secret key with every byte incremented, and a signature is the public key followed by 32
  copies of a checksum of the message.
\<close>

definition demo_public :: "bytes \<Rightarrow> bytes" where
  "demo_public sk = map (\<lambda>b. b + 1) sk"

definition demo_tag :: "bytes \<Rightarrow> bytes \<Rightarrow> bytes" where
  "demo_tag pk message = pk @ replicate 32 (of_nat (sum_list (map unat message) mod 128))"

definition demo_ed25519 :: ed25519 where
  "demo_ed25519 =
     \<lparr>ed_getPublicKey = (\<lambda>sk. if length sk = 32 then Some (demo_public sk) else None),
      ed_sign = (\<lambda>message sk.
         if length sk = 32 then Some (demo_tag (demo_public sk) message) else None),
      ed_verify = (\<lambda>sig message pk. Some (length pk = 32 \<and> sig = demo_tag pk message))\<rparr>"

text \<open>The secret key of 32 bytes 0x40, as \<^verbatim>\<open>exportPrivateKey\<close> writes it.\<close>

definition demo_key_hex :: string where
  "demo_key_hex = concat (replicate 32 ''40'')"

definition demo_agent :: "(string \<times> string) list AgentIdentity" where
  "demo_agent =
     \<lparr>privateKey = replicate 32 0x40,
      publicKey = replicate 32 0x41,
      did = ''did:agentauth:ed25519:QUFBQUFBQUFBQUFBQUFBQUFBQUFBQUFBQUFBQUFBQUE'',
      metadata = Some [(''name'', ''TestAgent'')]\<rparr>"

text \<open>
  A delegation as the core builds it, allowed on every day of the week and at every hour of
  the day.
\<close>

definition all_week :: TimeWindow where
  "all_week =
     \<lparr>days = Some [''mon'', ''tue'', ''wed'', ''thu'', ''fri'', ''sat'', ''sun''],
      hours = Some ''00:00-23:59'',
      tz = Some ''UTC'',
      tw_start = None,
      tw_end = None\<rparr>"

definition demo_delegation :: DelegationToken where
  "demo_delegation =
     createDelegation ''123e4567-e89b-42d3-a456-426614174000'' ''2026-01-01T12:00:00.000Z''
       \<lparr>delegatorDID = ''did:web:alice.example.com'',
        delegateDID = did demo_agent,
        cd_scopes = [''mail.read''],
        cd_audiences = None,
        cd_platform = None,
        cd_agentName = None,
        cd_constraints = Some (no_constraints\<lparr>timeWindows := Some [all_week]\<rparr>),
        cd_revocation = None\<rparr>"

definition demo_header :: TokenHeader where
  "demo_header =
     \<lparr>alg = ''EdDSA'', hdr_typ = ''AAT'', kid = did demo_agent @ ''#keys-1''\<rparr>"

definition demo_payload :: TokenPayload where
  "demo_payload =
     \<lparr>iss = did demo_agent,
      sub = ''did:web:alice.example.com'',
      aud = ''https://api.example.com'',
      iat = 1000,
      exp = 4600,
      nonce = ''000102030405060708090a0b0c0d0e0f'',
      scope = [''mail.read''],
      act_sub = did demo_agent\<rparr>"

definition demo_verified :: AATToken where
  "demo_verified =
     \<lparr>header = demo_header, payload = demo_payload, delegationChain = [demo_delegation],
      signature = demo_tag (publicKey demo_agent) []\<rparr>"

text \<open>
  A delegation as the core builds it, whose \<^verbatim>\<open>constraints.notAfter\<close> is years before the
  clock of the examples and whose \<^verbatim>\<open>constraints.notBefore\<close> is years after it.
\<close>

definition demo_lapsed :: DelegationToken where
  "demo_lapsed =
     createDelegation ''123e4567-e89b-42d3-a456-426614174001'' ''2019-01-01T12:00:00.000Z''
       \<lparr>delegatorDID = ''did:web:alice.example.com'',
        delegateDID = did demo_agent,
        cd_scopes = [''mail.read''],
        cd_audiences = None,
        cd_platform = None,
        cd_agentName = None,
        cd_constraints =
          Some (no_constraints\<lparr>notBefore := Some ''2030-01-01T00:00:00.000Z'',
                                notAfter := Some ''2020-01-01T00:00:00.000Z''\<rparr>),
        cd_revocation = None\<rparr>"

text \<open>\<^verbatim>\<open>Date.now()\<close> and \<^verbatim>\<open>new Date().toTimeString()\<close> at noon UTC on 1 January 2026.\<close>

definition demo_dateNow :: int where
  "demo_dateNow = 1767268800000"

definition demo_timeString :: string where
  "demo_timeString = ''12:00:00 GMT+0000 (Coordinated Universal Time)''"

text \<open>
  A second agent, whose keys are not ASCII: secret key 32 bytes 0xFE.
\<close>

definition demo_agent_B :: "(string \<times> string) list AgentIdentity" where
  "demo_agent_B =
     \<lparr>privateKey = replicate 32 0xFE,
      publicKey = replicate 32 0xFF,
      did = ''did:agentauth:ed25519:__________________________________________8'',
      metadata = None\<rparr>"

definition demo_header_B :: TokenHeader where
  "demo_header_B =
     \<lparr>alg = ''EdDSA'', hdr_typ = ''AAT'', kid = did demo_agent_B @ ''#keys-1''\<rparr>"

definition demo_payload_B :: TokenPayload where
  "demo_payload_B = demo_payload\<lparr>iss := did demo_agent_B, act_sub := did demo_agent_B\<rparr>"

text \<open>
  A stand-in for JSON on the documents of the examples. Each table pairs a value with the
  text that \<^verbatim>\<open>JSON.stringify\<close> gives for it; \<open>stringify\<close> looks the value up,
  \<open>parse\<close> looks the text up and throws on any other text.
\<close>

definition demo_headers :: "(TokenHeader \<times> string) list" where
  "demo_headers =
    [(demo_header,
     ''{\"alg\":\"EdDSA\",\"typ\":\"AAT\",\"kid\":\"did:agentauth:ed25519:QUFBQUFBQUFBQUFBQUFBQUFB'' @
     ''QUFBQUFBQUFBQUFBQUE#keys-1\"}''),
     (demo_header_B,
     ''{\"alg\":\"EdDSA\",\"typ\":\"AAT\",\"kid\":\"did:agentauth:ed25519:________________________'' @
     ''__________________8#keys-1\"}'')]"

definition demo_payloads :: "(TokenPayload \<times> string) list" where
  "demo_payloads =
    [(demo_payload,
     ''{\"iss\":\"did:agentauth:ed25519:QUFBQUFBQUFBQUFBQUFBQUFBQUFBQUFBQUFBQUFBQUE\",\"sub\"'' @
     '':\"did:web:alice.example.com\",\"aud\":\"https://api.example.com\",\"iat\":1000,\"exp\":46'' @
     ''00,\"nonce\":\"000102030405060708090a0b0c0d0e0f\",\"scope\":[\"mail.read\"],\"act\":{\"sub\"'' @
     '':\"did:agentauth:ed25519:QUFBQUFBQUFBQUFBQUFBQUFBQUFBQUFBQUFBQUFBQUE\"}}''),
     (demo_payload_B,
     ''{\"iss\":\"did:agentauth:ed25519:__________________________________________8\",\"sub\"'' @
     '':\"did:web:alice.example.com\",\"aud\":\"https://api.example.com\",\"iat\":1000,\"exp\":46'' @
     ''00,\"nonce\":\"000102030405060708090a0b0c0d0e0f\",\"scope\":[\"mail.read\"],\"act\":{\"sub\"'' @
     '':\"did:agentauth:ed25519:__________________________________________8\"}}'')]"

definition demo_chains :: "(DelegationToken list \<times> string) list" where
  "demo_chains = [([], ''[]'')]"

definition lookup_text :: "('a \<times> string) list \<Rightarrow> 'a \<Rightarrow> string" where
  "lookup_text table v = (case map_of table v of None \<Rightarrow> ''null'' | Some t \<Rightarrow> t)"

definition lookup_value :: "('a \<times> string) list \<Rightarrow> string \<Rightarrow> 'a option" where
  "lookup_value table t = map_of (map (\<lambda>(v, t). (t, v)) table) t"

definition demo_JSON :: JSON where
  "demo_JSON =
     \<lparr>stringify_header = lookup_text demo_headers,
      stringify_payload = lookup_text demo_payloads,
      stringify_chain = lookup_text demo_chains,
      parse_header = lookup_value demo_headers,
      parse_payload = lookup_value demo_payloads,
      parse_chain = lookup_value demo_chains\<rparr>"

text \<open>
  The options of the scenario: the agent acts for \<^verbatim>\<open>did:web:alice.example.com\<close> at
  \<^verbatim>\<open>https://api.example.com\<close> with the scope \<^verbatim>\<open>mail.read\<close>, for the default hour.
\<close>

definition demo_options :: "(string \<times> string) list CreateTokenOptions" where
  "demo_options =
     \<lparr>identity = demo_agent,
      delegator = ''did:web:alice.example.com'',
      audience = ''https://api.example.com'',
      scopes = [''mail.read''],
      opt_delegationChain = None,
      expiresIn = None\<rparr>"

definition demo_random :: bytes where
  "demo_random = [0, 1, 2, 3, 4, 5, 6, 7, 8, 9, 10, 11, 12, 13, 14, 15]"

text \<open>
  The token that \<open>AATToken_create\<close> returns for these options, the same token with 64
  bytes 0x42 in place of its signature, and the token of the second agent for the same options.
\<close>

definition demo_token :: string where
  "demo_token =
     signing_input demo_JSON demo_header demo_payload [] @ ''.'' @
     Buffer_toString_base64url
       (demo_tag (publicKey demo_agent)
          (Buffer_from_utf8 (signing_input demo_JSON demo_header demo_payload [])))"

definition demo_forged :: string where
  "demo_forged =
     signing_input demo_JSON demo_header demo_payload [] @ ''.'' @
     Buffer_toString_base64url (replicate 64 0x42)"

definition demo_token_B :: string where
  "demo_token_B =
     signing_input demo_JSON demo_header_B demo_payload_B [] @ ''.'' @
     Buffer_toString_base64url
       (demo_tag (publicKey demo_agent_B)
          (Buffer_from_utf8 (signing_input demo_JSON demo_header_B demo_payload_B [])))"

text \<open>
  A second stand-in for the library. It differs from the first in one point, which it shares
  with \<^verbatim>\<open>@noble/ed25519\<close>: \<open>verify\<close> throws when the signature is not 64 bytes long.
\<close>

definition strict_ed25519 :: ed25519 where
  "strict_ed25519 =
     demo_ed25519\<lparr>ed_verify := (\<lambda>sig message pk.
        if length sig \<noteq> 64 then None else ed_verify demo_ed25519 sig message pk)\<rparr>"

text \<open>
  The token of the test \<^verbatim>\<open>should reject token with invalid signature\<close>: a created token
  whose signature is replaced by 64 bytes 0xFF.
\<close>

definition demo_tampered :: string where
  "demo_tampered =
     signing_input demo_JSON demo_header demo_payload [] @ ''.'' @
     Buffer_toString_base64url (replicate 64 0xFF)"

definition no_options :: VerifyOptions where
  "no_options = \<lparr>vo_audience = None, vo_requiredScopes = None\<rparr>"

text \<open>
  A signature of the real scheme, computed with the reference implementation of RFC 8032: the
  secret key of the first test vector of the RFC (9d61b19d...1cae7f60) signs the signing input
  of the scenario for its own DID, at \<^verbatim>\<open>Date.now() = 1000000\<close> and with the nonce
  000102...0e0f. Its first byte, A9, does not begin a UTF-8 sequence.
\<close>

definition rfc8032_signature :: bytes where
  "rfc8032_signature =
     [0xA9, 0x09, 0xF2, 0x1B, 0xCE, 0x86, 0x44, 0x55,
      0x88, 0x33, 0x07, 0xB6, 0x35, 0xA3, 0x3F, 0x12,
      0xA3, 0xBD, 0x20, 0x6B, 0xFA, 0x91, 0x86, 0x17,
      0x72, 0x2C, 0x88, 0x1E, 0xC8, 0x83, 0x31, 0x68,
      0x2C, 0x16, 0x26, 0x45, 0x30, 0xDF, 0x79, 0xF7,
      0xE7, 0x1C, 0xC3, 0x8C, 0x87, 0x5A, 0xDE, 0xD5,
      0x32, 0x10, 0x78, 0xD4, 0x12, 0x6B, 0xB4, 0xB0,
      0x58, 0x2D, 0x92, 0x3C, 0xE3, 0x3C, 0xAC, 0x0C]"

section \<open>Properties\<close>

subsection \<open>Properties of the Buffer encodings\<close>

lemma split_no_sep: "sep \<notin> set s \<Longrightarrow> split sep s = [s]"
  by (induction s) auto

lemma split_append: "sep \<notin> set a \<Longrightarrow> split sep (a @ sep # b) = a # split sep b"
  by (induction a) auto

lemma unbase64_b64_char: "n < 64 \<Longrightarrow> unbase64 (b64_char n) = Some n"
proof -
  have "\<forall>n \<in> set [0..<64]. unbase64 (b64_char n) = Some n"
    by (simp add: unbase64_def b64_char_def base64url_table_def upt_rec)
  then show "n < 64 \<Longrightarrow> unbase64 (b64_char n) = Some n" by simp
qed

lemma b64_char_plain: "n < 64 \<Longrightarrow> b64_char n \<notin> {CHR ''='', CHR '':'', CHR ''.''}"
proof -
  have "\<forall>n \<in> set [0..<64]. b64_char n \<notin> {CHR ''='', CHR '':'', CHR ''.''}"
    by (simp add: b64_char_def base64url_table_def upt_rec)
  then show "n < 64 \<Longrightarrow> b64_char n \<notin> {CHR ''='', CHR '':'', CHR ''.''}" by simp
qed

lemma b64_char_ascii: "n < 64 \<Longrightarrow> (of_char (b64_char n) :: nat) < 128"
proof -
  have "\<forall>n \<in> set [0..<64]. (of_char (b64_char n) :: nat) < 128"
    by (simp add: b64_char_def base64url_table_def upt_rec)
  then show "n < 64 \<Longrightarrow> (of_char (b64_char n) :: nat) < 128" by simp
qed

lemma hex_char_ascii: "(of_char (hex_char n) :: nat) < 128"
proof -
  have "\<forall>k \<in> set [0..<16]. (of_char (hex_table ! k) :: nat) < 128"
    by (simp add: hex_table_def upt_rec)
  moreover have "n mod 16 \<in> set [0..<16]" by simp
  ultimately show ?thesis unfolding hex_char_def by blast
qed

text \<open>On ASCII text the units are the characters.\<close>

lemma low_bytes_ascii: "is_ascii s \<Longrightarrow> low_bytes s = s"
  by (induction s) (simp_all add: is_ascii_def low_bytes_def Let_def)

lemma unat_byte: "unat (a :: byte) < 256"
  by (rule order_less_le_trans [OF unsigned_less]) simp

lemma b64_groups_lt: "n \<in> set (b64_groups bs) \<Longrightarrow> n < 64"
proof (induction bs arbitrary: n rule: b64_groups.induct)
  case (1 a b c rest)
  have "unat a < 256" "unat b < 256" "unat c < 256"
    using unat_byte [of a] unat_byte [of b] unat_byte [of c] by simp_all
  then show ?case using 1 by auto
next
  case (2 a b)
  have "unat a < 256" "unat b < 256"
    using unat_byte [of a] unat_byte [of b] by simp_all
  then show ?case using 2 by auto
next
  case (3 a)
  have "unat a < 256" using unat_byte [of a] by simp
  then show ?case using 3 by auto
next
  case 4
  then show ?case by simp
qed

lemma byte_split4:
  fixes a b :: byte
  shows "(of_nat (unat a div 4 * 4 + (unat a mod 4 * 16 + unat b div 16) div 16) :: byte) = a"
proof -
  have "unat b < 256" by (rule unat_byte)
  then have "(unat a mod 4 * 16 + unat b div 16) div 16 = unat a mod 4" by simp
  then show ?thesis by simp
qed

lemma byte_split16:
  fixes a b c :: byte
  shows "(of_nat ((unat a mod 4 * 16 + unat b div 16) mod 16 * 16
            + (unat b mod 16 * 4 + unat c div 64) div 4) :: byte) = b"
proof -
  have "unat c < 256" by (rule unat_byte)
  then have "(unat b mod 16 * 4 + unat c div 64) div 4 = unat b mod 16" by simp
  moreover have "unat b < 256" by (rule unat_byte)
  then have "(unat a mod 4 * 16 + unat b div 16) mod 16 = unat b div 16" by simp
  ultimately show ?thesis by simp
qed

lemma byte_split64:
  fixes b c :: byte
  shows "(of_nat ((unat b mod 16 * 4 + unat c div 64) mod 4 * 64 + unat c mod 64) :: byte) = c"
proof -
  have "unat c < 256" by (rule unat_byte)
  then have "(unat b mod 16 * 4 + unat c div 64) mod 4 = unat c div 64" by simp
  then show ?thesis by simp
qed

lemma byte_split4_last:
  fixes a :: byte
  shows "(of_nat (unat a div 4 * 4 + (unat a mod 4 * 16) div 16) :: byte) = a"
  by simp

lemma byte_split16_last:
  fixes a b :: byte
  shows "(of_nat ((unat a mod 4 * 16 + unat b div 16) mod 16 * 16
            + (unat b mod 16 * 4) div 4) :: byte) = b"
proof -
  have "unat b < 256" by (rule unat_byte)
  then have "(unat a mod 4 * 16 + unat b div 16) mod 16 = unat b div 16" by simp
  then show ?thesis by simp
qed

lemma b64_ungroup_groups: "b64_ungroup (b64_groups bs) = bs"
proof (induction bs rule: b64_groups.induct)
  case (1 a b c rest)
  then show ?case
    by (simp only: b64_groups.simps b64_ungroup.simps byte_split4 byte_split16 byte_split64)
next
  case (2 a b)
  show ?case
    by (simp only: b64_groups.simps b64_ungroup.simps byte_split4 byte_split16_last)
next
  case (3 a)
  show ?case
    by (simp only: b64_groups.simps b64_ungroup.simps byte_split4_last)
next
  case 4
  show ?case by simp
qed

lemma b64_sextets_chars:
  assumes lt: "\<forall>n \<in> set ns. n < 64"
  shows "b64_sextets (map b64_char ns) = ns"
proof -
  have tw: "takeWhile (\<lambda>c. c \<noteq> CHR ''='') (map b64_char ns) = map b64_char ns"
    using lt b64_char_plain by (auto simp: takeWhile_eq_all_conv)
  have "List.map_filter unbase64 (map b64_char ns) = ns"
    using lt by (induction ns) (simp_all add: unbase64_b64_char)
  then show ?thesis unfolding b64_sextets_def tw .
qed

lemma base64url_ascii: "is_ascii (Buffer_toString_base64url bs)"
  using b64_groups_lt b64_char_ascii
  by (auto simp: is_ascii_def Buffer_toString_base64url_def list_all_iff)

lemma base64url_roundtrip: "Buffer_from_base64url (Buffer_toString_base64url bs) = bs"
proof -
  have "low_bytes (Buffer_toString_base64url bs) = Buffer_toString_base64url bs"
    by (rule low_bytes_ascii [OF base64url_ascii])
  then show ?thesis
    by (simp add: Buffer_from_base64url_def Buffer_toString_base64url_def b64_sextets_chars
        b64_groups_lt b64_ungroup_groups)
qed

lemma base64url_plain:
  "c \<in> set (Buffer_toString_base64url bs) \<Longrightarrow> c \<notin> {CHR ''='', CHR '':'', CHR ''.''}"
  using b64_groups_lt b64_char_plain by (fastforce simp: Buffer_toString_base64url_def)

lemma unhex_hex_char: "n < 16 \<Longrightarrow> unhex (hex_char n) = Some n"
proof -
  have "\<forall>n \<in> set [0..<16]. unhex (hex_char n) = Some n"
    by (simp add: unhex_def hex_char_def hex_table_def upt_rec)
  then show "n < 16 \<Longrightarrow> unhex (hex_char n) = Some n" by simp
qed

lemma hex_pairs_roundtrip: "hex_pairs (Buffer_toString_hex bs) = bs"
proof (induction bs)
  case Nil
  show ?case by simp
next
  case (Cons b bs)
  have "unat b < 256" by (rule unat_byte)
  then have "unat b div 16 < 16" by simp
  then have hi: "unhex (hex_char (unat b div 16)) = Some (unat b div 16)"
    by (rule unhex_hex_char)
  have lo: "unhex (hex_char (unat b mod 16)) = Some (unat b mod 16)"
    by (rule unhex_hex_char) simp
  show ?case using Cons by (simp add: hi lo)
qed

lemma hex_ascii: "is_ascii (Buffer_toString_hex bs)"
  by (induction bs) (simp_all add: is_ascii_def hex_char_ascii)

lemma hex_roundtrip: "Buffer_from_hex (Buffer_toString_hex bs) = bs"
  by (simp add: Buffer_from_hex_def low_bytes_ascii [OF hex_ascii] hex_pairs_roundtrip)

lemma unat_of_nat_byte: "n < 256 \<Longrightarrow> unat (of_nat n :: byte) = n"
  by (simp add: unat_of_nat)

lemma utf8_scrub_ascii: "list_all (\<lambda>b. b < 0x80) bs \<Longrightarrow> utf8_scrub bs = bs"
  by (induction bs) simp_all

lemma ascii_byte: "(of_char c :: nat) < 128 \<Longrightarrow> (of_nat (of_char c) :: byte) < 0x80"
  by (simp add: word_less_nat_alt unat_of_nat_byte)

lemma char_of_byte: "char_of (unat (of_nat (of_char c) :: byte)) = c"
proof -
  have "(of_char c :: nat) < 256" by simp
  then show ?thesis by (simp add: unat_of_nat_byte del: of_nat_of_char)
qed

lemma utf8_text_roundtrip:
  assumes "is_ascii s"
  shows "Buffer_toString_utf8 (Buffer_from_utf8 s) = s"
proof -
  have "list_all (\<lambda>b. b < 0x80) (Buffer_from_utf8 s)"
    using assms ascii_byte
    by (auto simp: is_ascii_def Buffer_from_utf8_def list_all_iff simp del: of_nat_of_char)
  then have "utf8_scrub (Buffer_from_utf8 s) = Buffer_from_utf8 s"
    by (rule utf8_scrub_ascii)
  then show ?thesis
    by (simp add: Buffer_toString_utf8_def Buffer_from_utf8_def char_of_byte comp_def map_idI
        del: of_nat_of_char)
qed

lemma utf8_bytes_roundtrip:
  assumes "list_all (\<lambda>b. b < 0x80) bs"
  shows "Buffer_from_utf8 (Buffer_toString_utf8 bs) = bs"
proof -
  have "utf8_scrub bs = bs" using assms by (rule utf8_scrub_ascii)
  moreover have "(of_nat (of_char (char_of (unat b))) :: byte) = b" for b :: byte
  proof -
    have "unat b < 256" by (rule unat_byte)
    then show ?thesis by simp
  qed
  ultimately show ?thesis
    by (simp add: Buffer_toString_utf8_def Buffer_from_utf8_def comp_def map_idI
        del: of_nat_of_char)
qed

subsection \<open>Properties of the DID encoding\<close>

lemma did_decodes: "didToPublicKey (publicKeyToDID pk) = Inr pk"
proof -
  let ?e = "Buffer_toString_base64url pk"
  have colon: "CHR '':'' \<notin> set ?e"
    using base64url_plain [of "CHR '':''" pk] by auto
  have "publicKeyToDID pk = ''did'' @ CHR '':'' # (''agentauth'' @ CHR '':'' # (''ed25519'' @ CHR '':'' # ?e))"
    by (simp add: publicKeyToDID_def)
  then have "split (CHR '':'') (publicKeyToDID pk) = [''did'', ''agentauth'', ''ed25519'', ?e]"
    using colon by (simp only: split_append split_no_sep) (simp add: split_append split_no_sep)
  then show ?thesis
    by (simp add: didToPublicKey_def base64url_roundtrip)
qed

text \<open>
  Claim C5. Decoding the DID of a public key gives the public key back, byte for byte. It
  holds for every byte sequence, so for every key that identity generation produces.
\<close>

theorem didToPublicKey_publicKeyToDID: "didToPublicKey (publicKeyToDID pk) = Inr pk"
  by (rule did_decodes)

theorem didToPublicKey_publicKeyToDID_witness:
  "publicKeyToDID (publicKey demo_agent) = did demo_agent
   \<and> didToPublicKey (did demo_agent) = Inr (publicKey demo_agent)"
proof -
  have "publicKeyToDID (publicKey demo_agent) = did demo_agent"
    by code_simp
  then show ?thesis
    using didToPublicKey_publicKeyToDID [of "publicKey demo_agent"] by simp
qed

subsection \<open>Properties of AgentIdentity\<close>

lemma hex_pairs_length:
  "well_formed_hex s \<Longrightarrow> length (hex_pairs s) = length s div 2"
proof (induction s rule: hex_pairs.induct)
  case (1 a b rest)
  then show ?case by (auto simp: well_formed_hex_def)
next
  case (2 a)
  then show ?case by (simp add: well_formed_hex_def)
next
  case 3
  show ?case by simp
qed

lemma well_formed_hex_ascii: "well_formed_hex s \<Longrightarrow> is_ascii s"
  by (auto simp: well_formed_hex_def is_ascii_def list_all_iff unhex_def Let_def
      split: if_splits)

lemma Buffer_from_hex_ascii: "is_ascii s \<Longrightarrow> Buffer_from_hex s = hex_pairs s"
  by (simp add: Buffer_from_hex_def low_bytes_ascii)

lemma Buffer_from_hex_length:
  "well_formed_hex s \<Longrightarrow> length (Buffer_from_hex s) = length s div 2"
  by (simp add: Buffer_from_hex_ascii well_formed_hex_ascii hex_pairs_length)

text \<open>
  Two units U+0130 are read as the digits 00, so 62 digits followed by them are 32 bytes.
\<close>

lemma Buffer_from_hex_low_byte:
  "Buffer_from_hex [CHR 0xC4, CHR 0xB0, CHR 0xC4, CHR 0xB0] = [0]
   \<and> length (Buffer_from_hex (concat (replicate 31 ''40'')
                @ [CHR 0xC4, CHR 0xB0, CHR 0xC4, CHR 0xB0])) = 32"
  by code_simp

lemma demo_secret_key_contract: "secret_key_contract demo_ed25519"
  by (simp add: secret_key_contract_def demo_ed25519_def)

text \<open>
  \<open>fromPrivateKey\<close> has no check of its own. It takes the bytes that the hexadecimal
  decoder of the runtime gives for the string, and the library decides: the call fails with
  InvalidKeyFormat exactly when these are not 32 bytes, and otherwise returns the identity of
  the decoded key, with the derived public key and its DID. A well-formed string of 64 digits
  decodes to 32 bytes, so it is accepted.
\<close>

lemma fromPrivateKey_decoded_prefix:
  assumes "secret_key_contract lib"
  shows "(length (Buffer_from_hex hex) \<noteq> 32 \<longrightarrow> fromPrivateKey lib hex md = Inl InvalidKeyFormat)
    \<and> (length (Buffer_from_hex hex) = 32 \<longrightarrow>
         (\<exists>pk. ed_getPublicKey lib (Buffer_from_hex hex) = Some pk
             \<and> fromPrivateKey lib hex md =
                 Inr \<lparr>privateKey = Buffer_from_hex hex, publicKey = pk,
                      did = publicKeyToDID pk, metadata = md\<rparr>))
    \<and> (well_formed_hex hex \<and> length hex = 64 \<longrightarrow> length (Buffer_from_hex hex) = 32)"
proof -
  let ?sk = "Buffer_from_hex hex"
  have c: "(ed_getPublicKey lib ?sk \<noteq> None) = (length ?sk = 32)"
    using assms by (simp add: secret_key_contract_def)
  have "length ?sk \<noteq> 32 \<longrightarrow> fromPrivateKey lib hex md = Inl InvalidKeyFormat"
    using c by (auto simp: fromPrivateKey_def)
  moreover have "length ?sk = 32 \<longrightarrow>
         (\<exists>pk. ed_getPublicKey lib ?sk = Some pk
             \<and> fromPrivateKey lib hex md =
                 Inr \<lparr>privateKey = ?sk, publicKey = pk, did = publicKeyToDID pk, metadata = md\<rparr>)"
    using c by (auto simp: fromPrivateKey_def)
  moreover have "well_formed_hex hex \<and> length hex = 64 \<longrightarrow> length ?sk = 32"
    using Buffer_from_hex_length [of hex] by simp
  ultimately show ?thesis by blast
qed

lemma fromPrivateKey_decoded_prefix_example:
  "secret_key_contract demo_ed25519
   \<and> well_formed_hex demo_key_hex \<and> length demo_key_hex = 64
   \<and> fromPrivateKey demo_ed25519 demo_key_hex (metadata demo_agent) = Inr demo_agent
   \<and> length (Buffer_from_hex ''abcd'') \<noteq> 32
   \<and> fromPrivateKey demo_ed25519 ''abcd'' (metadata demo_agent) = Inl InvalidKeyFormat"
proof -
  note c = demo_secret_key_contract
  have wf: "well_formed_hex demo_key_hex \<and> length demo_key_hex = 64"
    by code_simp
  have short: "length (Buffer_from_hex ''abcd'') \<noteq> 32"
    by code_simp
  have bad: "fromPrivateKey demo_ed25519 ''abcd'' (metadata demo_agent) = Inl InvalidKeyFormat"
    using fromPrivateKey_decoded_prefix [OF c, of "''abcd''" "metadata demo_agent"] short
    by blast
  have "length (Buffer_from_hex demo_key_hex) = 32"
    using fromPrivateKey_decoded_prefix [OF c, of demo_key_hex "metadata demo_agent"] wf
    by blast
  then obtain pk where pk: "ed_getPublicKey demo_ed25519 (Buffer_from_hex demo_key_hex) = Some pk"
    and r: "fromPrivateKey demo_ed25519 demo_key_hex (metadata demo_agent) =
              Inr \<lparr>privateKey = Buffer_from_hex demo_key_hex, publicKey = pk,
                   did = publicKeyToDID pk, metadata = metadata demo_agent\<rparr>"
    using fromPrivateKey_decoded_prefix [OF c, of demo_key_hex "metadata demo_agent"]
    by blast
  have "ed_getPublicKey demo_ed25519 (Buffer_from_hex demo_key_hex) = Some (publicKey demo_agent)"
    by code_simp
  with pk have pk': "pk = publicKey demo_agent" by simp
  have "\<lparr>privateKey = Buffer_from_hex demo_key_hex, publicKey = publicKey demo_agent,
         did = publicKeyToDID (publicKey demo_agent), metadata = metadata demo_agent\<rparr>
        = demo_agent"
    by code_simp
  with r pk' have "fromPrivateKey demo_ed25519 demo_key_hex (metadata demo_agent) = Inr demo_agent"
    by simp
  with c wf short bad show ?thesis by simp
qed

text \<open>
  Claim C6 asks that \<open>fromPrivateKey\<close> fails with InvalidKeyFormat whenever the string
  does not decode as hexadecimal. The string below is 64 digits followed by \<^verbatim>\<open>zz\<close>: it
  is not a hexadecimal string, the decoder stops at the two letters without an error, and
  \<open>fromPrivateKey\<close> returns the identity of the first 32 bytes.
\<close>

theorem fromPrivateKey_accepts_trailing_garbage:
  "\<not> well_formed_hex (demo_key_hex @ ''zz'')
   \<and> fromPrivateKey demo_ed25519 (demo_key_hex @ ''zz'') (metadata demo_agent) = Inr demo_agent"
  by code_simp

lemma created_by_constructor:
  assumes "AgentIdentity_create lib random md = Inr x \<or> fromPrivateKey lib hex md = Inr x"
  shows "ed_getPublicKey lib (privateKey x) = Some (publicKey x)
         \<and> did x = publicKeyToDID (publicKey x)"
  using assms
  by (auto simp: AgentIdentity_create_def fromPrivateKey_def Let_def split: option.splits)

text \<open>
  Claim C9, as the code has it. An identity has four components: private key, public key,
  DID and metadata. For every identity built by \<open>create\<close> or \<open>fromPrivateKey\<close>,
  \<open>fromJSON\<close> of its \<open>toJSON\<close> is that identity again, whatever the time of serialization:
  the four components are equal, and so is every signature it produces.
\<close>

theorem fromJSON_toJSON_restores_identity:
  assumes "AgentIdentity_create lib random md = Inr x \<or> fromPrivateKey lib hex md = Inr x"
  shows "\<exists>y. fromJSON lib (toJSON nowISO x) = Inr y
           \<and> privateKey y = privateKey x \<and> publicKey y = publicKey x
           \<and> did y = did x \<and> metadata y = metadata x
           \<and> (\<forall>data. AgentIdentity_sign lib y data = AgentIdentity_sign lib x data)"
proof -
  from created_by_constructor [OF assms]
  have pk: "ed_getPublicKey lib (privateKey x) = Some (publicKey x)"
    and d: "did x = publicKeyToDID (publicKey x)"
    by simp_all
  have "fromJSON lib (toJSON nowISO x) = Inr x"
    using pk d by (simp add: fromJSON_def toJSON_def exportPrivateKey_def fromPrivateKey_def
        hex_roundtrip)
  then show ?thesis by simp
qed

theorem fromJSON_toJSON_restores_identity_witness:
  "fromPrivateKey demo_ed25519 demo_key_hex (metadata demo_agent) = Inr demo_agent
   \<and> fromJSON demo_ed25519 (toJSON ''2026-01-01T12:00:00.000Z'' demo_agent) = Inr demo_agent"
proof -
  have built: "fromPrivateKey demo_ed25519 demo_key_hex (metadata demo_agent) = Inr demo_agent"
    by code_simp
  then have "AgentIdentity_create demo_ed25519 [] (metadata demo_agent) = Inr demo_agent
             \<or> fromPrivateKey demo_ed25519 demo_key_hex (metadata demo_agent) = Inr demo_agent"
    by simp
  from fromJSON_toJSON_restores_identity [OF this, of "''2026-01-01T12:00:00.000Z''"]
  obtain y where "fromJSON demo_ed25519 (toJSON ''2026-01-01T12:00:00.000Z'' demo_agent) = Inr y"
    and "privateKey y = privateKey demo_agent" "publicKey y = publicKey demo_agent"
    and "did y = did demo_agent" "metadata y = metadata demo_agent"
    by blast
  then have "fromJSON demo_ed25519 (toJSON ''2026-01-01T12:00:00.000Z'' demo_agent) = Inr demo_agent"
    by simp
  with built show ?thesis by simp
qed

text \<open>
  Claim C9, as stated, counts the creation timestamp among the components that the round
  trip reproduces. The timestamp of the JSON is the time of serialization and \<open>fromJSON\<close>
  drops it: two serializations of one identity, a year apart, differ in \<open>created\<close> and are
  read back as the same identity.
\<close>

theorem fromJSON_drops_created:
  "json_created (toJSON ''2026-01-01T12:00:00.000Z'' demo_agent)
     \<noteq> json_created (toJSON ''2027-01-01T12:00:00.000Z'' demo_agent)
   \<and> fromJSON demo_ed25519 (toJSON ''2026-01-01T12:00:00.000Z'' demo_agent)
     = fromJSON demo_ed25519 (toJSON ''2027-01-01T12:00:00.000Z'' demo_agent)"
  by (simp add: toJSON_def fromJSON_def)

subsection \<open>Properties of parseExpiry\<close>

lemma unit_not_digit: "u \<in> set ''smhd'' \<Longrightarrow> \<not> is_digit u"
  by (auto simp: is_digit_def)

lemma expiry_match_shape:
  "expiry_match s = (if duration_shape s then Some (butlast s, last s) else None)"
proof (cases "duration_shape s")
  case True
  then obtain ds u where s: "s = ds @ [u]" and ds: "ds \<noteq> []" "list_all is_digit ds"
    and u: "u \<in> set ''smhd''"
    unfolding duration_shape_def by (metis append_butlast_last_id)
  have nd: "\<not> is_digit u" using u by (rule unit_not_digit)
  have tw: "takeWhile is_digit s = ds"
    using ds nd by (simp add: s list_all_iff takeWhile_tail)
  have dw: "dropWhile is_digit s = [u]"
    using ds nd by (simp add: s list_all_iff dropWhile_append1 dropWhile_append2)
  have "expiry_match s = Some (ds, u)"
    unfolding expiry_match_def tw dw using ds u by simp
  then show ?thesis
    using True by (simp add: s)
next
  case False
  show ?thesis
  proof (cases "dropWhile is_digit s")
    case Nil
    have "expiry_match s = None"
      unfolding expiry_match_def Nil by simp
    then show ?thesis using False by simp
  next
    case (Cons u rest)
    show ?thesis
    proof (cases "rest = [] \<and> takeWhile is_digit s \<noteq> [] \<and> u \<in> set ''smhd''")
      case True
      have "s = takeWhile is_digit s @ [u]"
        using takeWhile_dropWhile_id [of is_digit s] Cons True by simp
      moreover have "list_all is_digit (takeWhile is_digit s)"
        by (simp add: list_all_iff) (meson set_takeWhileD)
      ultimately have "duration_shape s"
        unfolding duration_shape_def using True
        by (metis butlast_snoc last_snoc snoc_eq_iff_butlast)
      with False show ?thesis by simp
    next
      case False': False
      have "expiry_match s = None"
        unfolding expiry_match_def Cons using False' by (cases rest) (auto simp: Let_def)
      then show ?thesis using False by simp
    qed
  qed
qed

lemma multipliers_unit:
  "u \<in> set ''smhd'' \<Longrightarrow> map_of multipliers u = Some (unit_seconds u)"
  by (auto simp: multipliers_def unit_seconds_def)

text \<open>
  Claim C4, as the code has it. \<open>parseExpiry\<close> accepts exactly the strings made of one or
  more decimal digits followed by one unit letter among s, m, h, d, and returns the count times
  the unit's number of seconds (exact as a JavaScript number while it does not exceed
  \<open>2 ^ 53\<close>); every other string fails with InvalidDurationFormat. A zero count is a count:
  it is accepted.
\<close>

theorem parseExpiry_accepts_exactly_count_unit:
  "parseExpiry s =
     (if duration_shape s then Inr (parseInt (butlast s) * unit_seconds (last s))
      else Inl InvalidDurationFormat)"
proof (cases "duration_shape s")
  case True
  then have "last s \<in> set ''smhd''"
    by (simp add: duration_shape_def)
  then have "map_of multipliers (last s) = Some (unit_seconds (last s))"
    by (rule multipliers_unit)
  then show ?thesis
    using True by (simp add: parseExpiry_def expiry_match_shape)
next
  case False
  then show ?thesis
    by (simp add: parseExpiry_def expiry_match_shape)
qed

theorem parseExpiry_accepts_exactly_count_unit_witness:
  "duration_shape ''24h'' \<and> parseExpiry ''24h'' = Inr 86400
   \<and> \<not> duration_shape ''-1s'' \<and> parseExpiry ''-1s'' = Inl InvalidDurationFormat
   \<and> \<not> duration_shape ''15'' \<and> parseExpiry ''15'' = Inl InvalidDurationFormat
   \<and> \<not> duration_shape ''3w'' \<and> parseExpiry ''3w'' = Inl InvalidDurationFormat"
  using parseExpiry_accepts_exactly_count_unit [of "''24h''"]
    parseExpiry_accepts_exactly_count_unit [of "''-1s''"]
    parseExpiry_accepts_exactly_count_unit [of "''15''"]
    parseExpiry_accepts_exactly_count_unit [of "''3w''"]
  by (simp add: duration_shape_def is_digit_def parseInt_def unit_seconds_def)

text \<open>
  Claim C4, as stated, asks for InvalidDurationFormat on a zero count. The code returns 0.
\<close>

theorem parseExpiry_zero_count_accepted:
  "parseExpiry ''0s'' = Inr 0 \<and> parseExpiry ''0s'' \<noteq> Inl InvalidDurationFormat"
  by (simp add: parseExpiry_def expiry_match_def is_digit_def parseInt_def multipliers_def)

subsection \<open>Properties of the middleware\<close>

lemma in_window_needs_start:
  "tw_start w = None \<or> tw_end w = None \<Longrightarrow> \<not> in_window currentTime w"
  by (auto simp: in_window_def)

text \<open>
  The window check reads \<open>start\<close> and \<open>end\<close> only: its outcome does not depend on the
  days, the hour range or the time zone of any window.
\<close>

lemma in_window_ignores_days_hours_tz:
  "in_window currentTime (w\<lparr>days := ds, hours := h, tz := z\<rparr>) = in_window currentTime w"
  by (simp add: in_window_def)

lemma enforceConstraints_core_windows:
  assumes "timeWindows (constraints delegation) = Some ws" and "ws \<noteq> []"
    and "\<forall>w \<in> set ws. tw_start w = None \<or> tw_end w = None"
  shows "enforceConstraints dateNow timeString delegation token \<noteq> Inr ()"
proof -
  have "\<not> list_ex (in_window (take 5 timeString)) ws"
    using assms(3) in_window_needs_start by (auto simp: list_ex_iff)
  then show ?thesis
    using assms(1,2) by (simp add: enforceConstraints_def Let_def)
qed

text \<open>
  Claim C8 asks that a delegation with time windows passes when the current time, in the
  window's time zone, falls in the day set and the hour range of some window. The delegation
  below is allowed on every day of the week from 00:00 to 23:59 UTC, so no clock time is
  outside it. The check rejects it at noon UTC on a Thursday.
\<close>

theorem enforceConstraints_rejects_all_week_window:
  "timeWindows (constraints demo_delegation) = Some [all_week]
   \<and> enforceConstraints demo_dateNow demo_timeString demo_delegation demo_verified
       = Inl OutsideTimeWindow"
  by code_simp

text \<open>
  Claim C10. On a delegation built by \<open>createDelegation\<close>, \<open>enforceConstraints\<close> never
  answers DelegationExpired nor DelegationNotYetValid, whatever the options (so whatever
  \<open>constraints.notAfter\<close> and \<open>constraints.notBefore\<close>), the clock and the token: the two
  properties it tests are never set by \<open>createDelegation\<close>.
\<close>

theorem createDelegation_time_bounds_not_enforced:
  "expiresAt (createDelegation uuid nowISO options) = None
   \<and> top_notBefore (createDelegation uuid nowISO options) = None
   \<and> enforceConstraints dateNow timeString (createDelegation uuid nowISO options) token
       \<noteq> Inl DelegationExpired
   \<and> enforceConstraints dateNow timeString (createDelegation uuid nowISO options) token
       \<noteq> Inl DelegationNotYetValid"
  by (simp add: enforceConstraints_def createDelegation_def Let_def split: option.splits)

theorem createDelegation_time_bounds_not_enforced_witness:
  "notAfter (constraints demo_lapsed) = Some ''2020-01-01T00:00:00.000Z''
   \<and> notBefore (constraints demo_lapsed) = Some ''2030-01-01T00:00:00.000Z''
   \<and> enforceConstraints demo_dateNow demo_timeString demo_lapsed demo_verified = Inr ()
   \<and> enforceConstraints demo_dateNow demo_timeString demo_lapsed demo_verified
       \<noteq> Inl DelegationExpired
   \<and> enforceConstraints demo_dateNow demo_timeString demo_lapsed demo_verified
       \<noteq> Inl DelegationNotYetValid"
proof -
  have "notAfter (constraints demo_lapsed) = Some ''2020-01-01T00:00:00.000Z''
        \<and> notBefore (constraints demo_lapsed) = Some ''2030-01-01T00:00:00.000Z''
        \<and> enforceConstraints demo_dateNow demo_timeString demo_lapsed demo_verified = Inr ()"
    by code_simp
  then show ?thesis
    using createDelegation_time_bounds_not_enforced
      [of "''123e4567-e89b-42d3-a456-426614174001''" "''2019-01-01T12:00:00.000Z''" _
          demo_dateNow demo_timeString demo_verified]
    by (simp add: demo_lapsed_def)
qed

subsection \<open>Properties of AATToken\<close>

lemma Buffer_base64url_no_dot: "CHR ''.'' \<notin> set (Buffer_toString_base64url bs)"
  using base64url_plain [of "CHR ''.''" bs] by auto

lemma base64urlEncode_no_dot: "CHR ''.'' \<notin> set (base64urlEncode s)"
  by (simp add: base64urlEncode_def Buffer_base64url_no_dot)

lemma split_four:
  assumes "CHR ''.'' \<notin> set h" and "CHR ''.'' \<notin> set p"
    and "CHR ''.'' \<notin> set d" and "CHR ''.'' \<notin> set s"
  shows "split (CHR ''.'') (h @ ''.'' @ p @ ''.'' @ d @ ''.'' @ s) = [h, p, d, s]"
  using assms by (simp add: split_append split_no_sep)

lemma base64url_text_roundtrip: "is_ascii s \<Longrightarrow> base64urlDecode (base64urlEncode s) = s"
  by (simp add: base64urlDecode_def base64urlEncode_def base64url_roundtrip utf8_text_roundtrip)

lemma base64urlDecode_signature:
  "Buffer_from_utf8 (base64urlDecode (Buffer_toString_base64url sig))
     = Buffer_from_utf8 (Buffer_toString_utf8 sig)"
  by (simp add: base64urlDecode_def base64url_roundtrip)

text \<open>The gates of \<open>AATToken_verify\<close>, once the four parts and the three documents are known.\<close>

lemma AATToken_verify_parts:
  assumes "split (CHR ''.'') token = [h, p, d, s]"
    and "parse_header js (base64urlDecode h) = Some hdr"
    and "parse_payload js (base64urlDecode p) = Some pl"
    and "parse_chain js (base64urlDecode d) = Some chain"
  shows "AATToken_verify lib js dateNow token options =
     (case AgentIdentity_verify lib (Buffer_from_utf8 (base64urlDecode s))
             (Buffer_from_utf8 (h @ ''.'' @ p @ ''.'' @ d)) (iss pl) of
        Inl e \<Rightarrow> Inl e
      | Inr isValid \<Rightarrow>
          if \<not> isValid then Inl InvalidSignature
          else if exp pl < dateNow div 1000 then Inl TokenExpired
          else if (case vo_audience options of
                     None \<Rightarrow> False
                   | Some a \<Rightarrow> a \<noteq> [] \<and> aud pl \<noteq> a)
            then Inl AudienceMismatch
          else if (case vo_requiredScopes options of
                     None \<Rightarrow> False
                   | Some required \<Rightarrow> \<not> list_all (\<lambda>s. s \<in> set (scope pl)) required)
            then Inl InsufficientScope
          else Inr \<lparr>header = hdr, payload = pl, delegationChain = chain,
                    signature = Buffer_from_utf8 (base64urlDecode s)\<rparr>)"
  by (simp only: AATToken_verify_def Let_def assms list.case option.case)

lemma token_payload_parts:
  assumes "split (CHR ''.'') token = [h, p, d, s]"
    and "parse_header js (base64urlDecode h) = Some hdr"
    and "parse_payload js (base64urlDecode p) = Some pl"
    and "parse_chain js (base64urlDecode d) = Some chain"
  shows "token_payload js token = Some pl"
  by (simp only: token_payload_def assms list.case option.case)

lemma signature_check_parts:
  assumes "split (CHR ''.'') token = [h, p, d, s]"
    and "parse_header js (base64urlDecode h) = Some hdr"
    and "parse_payload js (base64urlDecode p) = Some pl"
    and "parse_chain js (base64urlDecode d) = Some chain"
  shows "signature_check lib js token =
     Some (AgentIdentity_verify lib (Buffer_from_utf8 (base64urlDecode s))
             (Buffer_from_utf8 (h @ ''.'' @ p @ ''.'' @ d)) (iss pl))"
  by (simp only: signature_check_def token_payload_def assms list.case option.case)

lemma token_payload_SomeD:
  assumes "token_payload js token = Some pl"
  shows "\<exists>h p d s hdr chain. split (CHR ''.'') token = [h, p, d, s]
           \<and> parse_header js (base64urlDecode h) = Some hdr
           \<and> parse_payload js (base64urlDecode p) = Some pl
           \<and> parse_chain js (base64urlDecode d) = Some chain"
  using assms by (auto simp: token_payload_def split: list.splits option.splits)

lemma token_payload_None:
  assumes "token_payload js token = None"
  shows "AATToken_verify lib js dateNow token options = Inl MalformedToken"
  using assms
  by (auto simp: token_payload_def AATToken_verify_def split: list.splits option.splits)

text \<open>
  The outcome of \<open>AATToken_verify\<close> in terms of the signature check and the payload. The
  value returned on success is left as it is.
\<close>

lemma AATToken_verify_gates:
  "AATToken_verify lib js dateNow token options =
     (case token_payload js token of
        None \<Rightarrow> Inl MalformedToken
      | Some pl \<Rightarrow>
          (case signature_check lib js token of
             None \<Rightarrow> Inl MalformedToken
           | Some (Inl e) \<Rightarrow> Inl e
           | Some (Inr isValid) \<Rightarrow>
               if \<not> isValid then Inl InvalidSignature
               else if exp pl < dateNow div 1000 then Inl TokenExpired
               else if (case vo_audience options of
                          None \<Rightarrow> False
                        | Some a \<Rightarrow> a \<noteq> [] \<and> aud pl \<noteq> a)
                 then Inl AudienceMismatch
               else if (case vo_requiredScopes options of
                          None \<Rightarrow> False
                        | Some required \<Rightarrow> \<not> list_all (\<lambda>s. s \<in> set (scope pl)) required)
                 then Inl InsufficientScope
               else AATToken_verify lib js dateNow token options))"
proof (cases "token_payload js token")
  case None
  then show ?thesis by (simp add: token_payload_None)
next
  case (Some pl)
  from token_payload_SomeD [OF Some]
  obtain h p d s hdr chain where parts: "split (CHR ''.'') token = [h, p, d, s]"
    "parse_header js (base64urlDecode h) = Some hdr"
    "parse_payload js (base64urlDecode p) = Some pl"
    "parse_chain js (base64urlDecode d) = Some chain"
    by blast
  show ?thesis
    unfolding Some signature_check_parts [OF parts]
    by (simp add: AATToken_verify_parts [OF parts] split: sum.splits)
qed

lemma signature_check_payload:
  "signature_check lib js token = Some r \<Longrightarrow> \<exists>pl. token_payload js token = Some pl"
  by (auto simp: signature_check_def split: option.splits)

text \<open>The parts of a token that has the shape \<open>AATToken_create\<close> gives it.\<close>

lemma created_token_split:
  "split (CHR ''.'') (signing_input js hdr pl chain @ ''.'' @ Buffer_toString_base64url sig) =
     [base64urlEncode (stringify_header js hdr), base64urlEncode (stringify_payload js pl),
      base64urlEncode (stringify_chain js chain), Buffer_toString_base64url sig]"
  unfolding signing_input_def append_assoc
  by (rule split_four) (simp_all add: base64urlEncode_no_dot Buffer_base64url_no_dot)

lemma created_token_payload:
  assumes "parse_header js (base64urlDecode (base64urlEncode (stringify_header js hdr))) = Some hdr"
    and "parse_payload js (base64urlDecode (base64urlEncode (stringify_payload js pl))) = Some pl"
    and "parse_chain js (base64urlDecode (base64urlEncode (stringify_chain js chain))) = Some chain"
  shows "token_payload js (signing_input js hdr pl chain @ ''.'' @ Buffer_toString_base64url sig)
           = Some pl"
  by (rule token_payload_parts [OF created_token_split assms])

lemma created_token_signature_check:
  assumes "parse_header js (base64urlDecode (base64urlEncode (stringify_header js hdr))) = Some hdr"
    and "parse_payload js (base64urlDecode (base64urlEncode (stringify_payload js pl))) = Some pl"
    and "parse_chain js (base64urlDecode (base64urlEncode (stringify_chain js chain))) = Some chain"
  shows "signature_check lib js
           (signing_input js hdr pl chain @ ''.'' @ Buffer_toString_base64url sig)
           = Some (AgentIdentity_verify lib (Buffer_from_utf8 (Buffer_toString_utf8 sig))
                     (Buffer_from_utf8 (signing_input js hdr pl chain)) (iss pl))"
proof -
  have "signature_check lib js
          (signing_input js hdr pl chain @ ''.'' @ Buffer_toString_base64url sig)
        = Some (AgentIdentity_verify lib
                  (Buffer_from_utf8 (base64urlDecode (Buffer_toString_base64url sig)))
                  (Buffer_from_utf8
                     (base64urlEncode (stringify_header js hdr) @ ''.'' @
                      base64urlEncode (stringify_payload js pl) @ ''.'' @
                      base64urlEncode (stringify_chain js chain)))
                  (iss pl))"
    by (rule signature_check_parts [OF created_token_split assms])
  then show ?thesis
    by (simp only: base64urlDecode_signature signing_input_def)
qed

text \<open>
  What \<open>AATToken_create\<close> returns: the signing input of the header and payload it builds,
  and the signature of the library over it.
\<close>

lemma AATToken_create_token:
  assumes "AATToken_create lib js dateNow random options = Inr token"
  shows "\<exists>seconds sig.
           ed_sign lib
             (Buffer_from_utf8
                (signing_input js
                   \<lparr>alg = ''EdDSA'', hdr_typ = ''AAT'', kid = did (identity options) @ ''#keys-1''\<rparr>
                   \<lparr>iss = did (identity options), sub = delegator options,
                    aud = audience options, iat = dateNow div 1000,
                    exp = dateNow div 1000 + int seconds, nonce = generateNonce random,
                    scope = scopes options, act_sub = did (identity options)\<rparr>
                   (case opt_delegationChain options of None \<Rightarrow> [] | Some c \<Rightarrow> c)))
             (privateKey (identity options)) = Some sig
         \<and> token =
             signing_input js
               \<lparr>alg = ''EdDSA'', hdr_typ = ''AAT'', kid = did (identity options) @ ''#keys-1''\<rparr>
               \<lparr>iss = did (identity options), sub = delegator options,
                aud = audience options, iat = dateNow div 1000,
                exp = dateNow div 1000 + int seconds, nonce = generateNonce random,
                scope = scopes options, act_sub = did (identity options)\<rparr>
               (case opt_delegationChain options of None \<Rightarrow> [] | Some c \<Rightarrow> c)
             @ ''.'' @ Buffer_toString_base64url sig"
  using assms
  by (auto simp: AATToken_create_def AgentIdentity_sign_def signing_input_def Let_def
      split: sum.splits option.splits)

text \<open>
  A token made by \<open>AATToken_create\<close> carries the signature \<open>sig\<close> of the library. When
  \<open>AATToken_verify\<close> accepts that token, the signature that the library has accepted, and
  that the returned value holds, is \<open>sig\<close> decoded as UTF-8 text and encoded again.
\<close>

lemma created_token_checked_against_decoded_text:
  assumes "AATToken_create lib js dateNow random options = Inr token"
  shows "\<exists>input sig.
           ed_sign lib (Buffer_from_utf8 input) (privateKey (identity options)) = Some sig
         \<and> token = input @ ''.'' @ Buffer_toString_base64url sig
         \<and> (\<forall>dateNow' vo verified.
               AATToken_verify lib js dateNow' token vo = Inr verified \<longrightarrow>
                 signature verified = Buffer_from_utf8 (Buffer_toString_utf8 sig)
                 \<and> (\<exists>pk. ed_verify lib (Buffer_from_utf8 (Buffer_toString_utf8 sig))
                             (Buffer_from_utf8 input) pk = Some True))"
proof -
  from AATToken_create_token [OF assms]
  obtain hdr pl chain sig
    where s: "ed_sign lib (Buffer_from_utf8 (signing_input js hdr pl chain))
                (privateKey (identity options)) = Some sig"
      and t: "token = signing_input js hdr pl chain @ ''.'' @ Buffer_toString_base64url sig"
    by blast
  have "signature verified = Buffer_from_utf8 (Buffer_toString_utf8 sig)
        \<and> (\<exists>pk. ed_verify lib (Buffer_from_utf8 (Buffer_toString_utf8 sig))
                    (Buffer_from_utf8 (signing_input js hdr pl chain)) pk = Some True)"
    if "AATToken_verify lib js dateNow' token vo = Inr verified" for dateNow' vo verified
    using that unfolding t AATToken_verify_def created_token_split
    by (auto simp: Let_def base64urlDecode_signature AgentIdentity_verify_def signing_input_def
        split: option.splits sum.splits if_splits)
  with s t show ?thesis by blast
qed

subsection \<open>The examples, evaluated\<close>

lemma replicate_32: "replicate 32 x = x # replicate 31 x"
  by (simp add: numeral_eq_Suc)

lemma replicate_64: "replicate 64 x = x # replicate 63 x"
  by (simp add: numeral_eq_Suc)

lemma checksum_ascii: "(of_nat (n mod 128) :: byte) < 0x80"
  by (simp add: word_less_nat_alt unat_of_nat_byte)

lemma demo_header_parsed:
  "parse_header demo_JSON (base64urlDecode (base64urlEncode (stringify_header demo_JSON demo_header)))
     = Some demo_header"
proof -
  have a: "is_ascii (stringify_header demo_JSON demo_header)"
    by code_simp
  have b: "parse_header demo_JSON (stringify_header demo_JSON demo_header) = Some demo_header"
    by code_simp
  show ?thesis by (simp only: base64url_text_roundtrip [OF a] b)
qed

lemma demo_payload_parsed:
  "parse_payload demo_JSON (base64urlDecode (base64urlEncode (stringify_payload demo_JSON demo_payload)))
     = Some demo_payload"
proof -
  have a: "is_ascii (stringify_payload demo_JSON demo_payload)"
    by code_simp
  have b: "parse_payload demo_JSON (stringify_payload demo_JSON demo_payload) = Some demo_payload"
    by code_simp
  show ?thesis by (simp only: base64url_text_roundtrip [OF a] b)
qed

lemma demo_chain_parsed:
  "parse_chain demo_JSON (base64urlDecode (base64urlEncode (stringify_chain demo_JSON []))) = Some []"
proof -
  have a: "is_ascii (stringify_chain demo_JSON [])"
    by code_simp
  have b: "parse_chain demo_JSON (stringify_chain demo_JSON []) = Some []"
    by code_simp
  show ?thesis by (simp only: base64url_text_roundtrip [OF a] b)
qed

lemma demo_header_B_parsed:
  "parse_header demo_JSON (base64urlDecode (base64urlEncode (stringify_header demo_JSON demo_header_B)))
     = Some demo_header_B"
proof -
  have a: "is_ascii (stringify_header demo_JSON demo_header_B)"
    by code_simp
  have b: "parse_header demo_JSON (stringify_header demo_JSON demo_header_B) = Some demo_header_B"
    by code_simp
  show ?thesis by (simp only: base64url_text_roundtrip [OF a] b)
qed

lemma demo_payload_B_parsed:
  "parse_payload demo_JSON (base64urlDecode (base64urlEncode (stringify_payload demo_JSON demo_payload_B)))
     = Some demo_payload_B"
proof -
  have a: "is_ascii (stringify_payload demo_JSON demo_payload_B)"
    by code_simp
  have b: "parse_payload demo_JSON (stringify_payload demo_JSON demo_payload_B) = Some demo_payload_B"
    by code_simp
  show ?thesis by (simp only: base64url_text_roundtrip [OF a] b)
qed

lemma demo_agent_key: "didToPublicKey (did demo_agent) = Inr (publicKey demo_agent)"
proof -
  have "did demo_agent = publicKeyToDID (publicKey demo_agent)"
    by code_simp
  then show ?thesis by (simp only: did_decodes)
qed

lemma demo_agent_B_key: "didToPublicKey (did demo_agent_B) = Inr (publicKey demo_agent_B)"
proof -
  have "did demo_agent_B = publicKeyToDID (publicKey demo_agent_B)"
    by code_simp
  then show ?thesis by (simp only: did_decodes)
qed

lemma demo_tag_ascii: "list_all (\<lambda>b. b < 0x80) (demo_tag (publicKey demo_agent) m)"
  by (simp add: demo_tag_def demo_agent_def list_all_iff checksum_ascii)

lemma demo_token_payload: "token_payload demo_JSON demo_token = Some demo_payload"
  unfolding demo_token_def
  by (rule created_token_payload [OF demo_header_parsed demo_payload_parsed demo_chain_parsed])

lemma demo_forged_payload: "token_payload demo_JSON demo_forged = Some demo_payload"
  unfolding demo_forged_def
  by (rule created_token_payload [OF demo_header_parsed demo_payload_parsed demo_chain_parsed])

lemma demo_token_signature:
  "signature_check demo_ed25519 demo_JSON demo_token = Some (Inr True)"
proof -
  let ?m = "Buffer_from_utf8 (signing_input demo_JSON demo_header demo_payload [])"
  let ?sig = "demo_tag (publicKey demo_agent) ?m"
  have same: "Buffer_from_utf8 (Buffer_toString_utf8 ?sig) = ?sig"
    by (rule utf8_bytes_roundtrip [OF demo_tag_ascii])
  have "AgentIdentity_verify demo_ed25519 ?sig ?m (iss demo_payload) = Inr True"
    by (simp add: AgentIdentity_verify_def demo_payload_def demo_agent_key demo_ed25519_def)
       (simp add: demo_agent_def)
  then show ?thesis
    unfolding demo_token_def
      created_token_signature_check [OF demo_header_parsed demo_payload_parsed demo_chain_parsed]
      same
    by simp
qed

lemma demo_forged_signature:
  "signature_check demo_ed25519 demo_JSON demo_forged = Some (Inr False)"
proof -
  let ?m = "Buffer_from_utf8 (signing_input demo_JSON demo_header demo_payload [])"
  let ?sig = "replicate 64 (0x42 :: byte)"
  have "list_all (\<lambda>b. b < 0x80) ?sig"
    by (simp add: list_all_iff)
  then have same: "Buffer_from_utf8 (Buffer_toString_utf8 ?sig) = ?sig"
    by (rule utf8_bytes_roundtrip)
  have "?sig \<noteq> demo_tag (publicKey demo_agent) ?m"
    by (simp add: demo_tag_def demo_agent_def replicate_32 replicate_64)
  then have "AgentIdentity_verify demo_ed25519 ?sig ?m (iss demo_payload) = Inr False"
    by (simp add: AgentIdentity_verify_def demo_payload_def demo_agent_key demo_ed25519_def)
  then show ?thesis
    unfolding demo_forged_def
      created_token_signature_check [OF demo_header_parsed demo_payload_parsed demo_chain_parsed]
      same
    by simp
qed

lemma demo_token_B_payload: "token_payload demo_JSON demo_token_B = Some demo_payload_B"
  unfolding demo_token_B_def
  by (rule created_token_payload [OF demo_header_B_parsed demo_payload_B_parsed demo_chain_parsed])

lemma parseExpiry_default: "parseExpiry ''1h'' = Inr 3600"
  by (simp add: parseExpiry_def expiry_match_def is_digit_def parseInt_def multipliers_def)

lemma demo_nonce: "generateNonce demo_random = ''000102030405060708090a0b0c0d0e0f''"
  by code_simp

lemma demo_create:
  "AATToken_create demo_ed25519 demo_JSON 1000000 demo_random demo_options = Inr demo_token"
proof -
  have o: "opt_delegationChain demo_options = None" "expiresIn demo_options = None"
    by (simp_all add: demo_options_def)
  have h: "\<lparr>alg = ''EdDSA'', hdr_typ = ''AAT'', kid = did (identity demo_options) @ ''#keys-1''\<rparr>
           = demo_header"
    by (simp add: demo_header_def demo_options_def)
  have p: "\<lparr>iss = did (identity demo_options), sub = delegator demo_options,
            aud = audience demo_options, iat = 1000000 div 1000,
            exp = 1000000 div 1000 + int 3600, nonce = generateNonce demo_random,
            scope = scopes demo_options, act_sub = did (identity demo_options)\<rparr>
           = demo_payload"
    unfolding demo_nonce by (simp add: demo_payload_def demo_options_def)
  have s: "AgentIdentity_sign demo_ed25519 (identity demo_options) m
           = Inr (demo_tag (publicKey demo_agent) m)" for m
    by (simp add: AgentIdentity_sign_def demo_ed25519_def demo_options_def demo_public_def
        demo_agent_def)
  show ?thesis
    by (simp only: AATToken_create_def Let_def o option.case parseExpiry_default sum.case h p s
        demo_token_def signing_input_def)
qed

lemma demo_create_B:
  "AATToken_create demo_ed25519 demo_JSON 1000000 demo_random
     (demo_options\<lparr>identity := demo_agent_B\<rparr>) = Inr demo_token_B"
proof -
  let ?options = "demo_options\<lparr>identity := demo_agent_B\<rparr>"
  have o: "opt_delegationChain ?options = None" "expiresIn ?options = None"
    by (simp_all add: demo_options_def)
  have h: "\<lparr>alg = ''EdDSA'', hdr_typ = ''AAT'', kid = did (identity ?options) @ ''#keys-1''\<rparr>
           = demo_header_B"
    by (simp add: demo_header_B_def)
  have p: "\<lparr>iss = did (identity ?options), sub = delegator ?options,
            aud = audience ?options, iat = 1000000 div 1000,
            exp = 1000000 div 1000 + int 3600, nonce = generateNonce demo_random,
            scope = scopes ?options, act_sub = did (identity ?options)\<rparr>
           = demo_payload_B"
    unfolding demo_nonce by (simp add: demo_payload_B_def demo_payload_def demo_options_def)
  have s: "AgentIdentity_sign demo_ed25519 (identity ?options) m
           = Inr (demo_tag (publicKey demo_agent_B) m)" for m
    by (simp add: AgentIdentity_sign_def demo_ed25519_def demo_public_def demo_agent_B_def)
  show ?thesis
    by (simp only: AATToken_create_def Let_def o option.case parseExpiry_default sum.case h p s
        demo_token_B_def signing_input_def)
qed

text \<open>
  The bytes that \<open>AATToken_verify\<close> hands to the library for the token of the second
  agent begin with EF BF BD, the encoding of U+FFFD: the signature began with FF.
\<close>

lemma demo_signature_B_decoded:
  "Buffer_from_utf8 (Buffer_toString_utf8 (demo_tag (publicKey demo_agent_B) m))
     = [0xEF, 0xBF, 0xBD]
       @ Buffer_from_utf8 (Buffer_toString_utf8 (tl (demo_tag (publicKey demo_agent_B) m)))"
  by (simp add: demo_tag_def demo_agent_B_def replicate_32 Buffer_toString_utf8_def
      Buffer_from_utf8_def replacement_def)

lemma demo_token_B_signature:
  "signature_check demo_ed25519 demo_JSON demo_token_B = Some (Inr False)"
proof -
  let ?m = "Buffer_from_utf8 (signing_input demo_JSON demo_header_B demo_payload_B [])"
  let ?sig = "demo_tag (publicKey demo_agent_B) ?m"
  have "hd (Buffer_from_utf8 (Buffer_toString_utf8 ?sig)) = 0xEF"
    unfolding demo_signature_B_decoded by simp
  moreover have "hd ?sig = 0xFF"
    by (simp add: demo_tag_def demo_agent_B_def replicate_32)
  ultimately have "Buffer_from_utf8 (Buffer_toString_utf8 ?sig) \<noteq> ?sig"
    by auto
  then have "AgentIdentity_verify demo_ed25519 (Buffer_from_utf8 (Buffer_toString_utf8 ?sig)) ?m
               (iss demo_payload_B) = Inr False"
    by (simp add: AgentIdentity_verify_def demo_payload_B_def demo_agent_B_key demo_ed25519_def)
  then show ?thesis
    unfolding demo_token_B_def
      created_token_signature_check
        [OF demo_header_B_parsed demo_payload_B_parsed demo_chain_parsed]
    by simp
qed

subsection \<open>The gates of AATToken.verify\<close>

text \<open>
  The signature step of \<open>AATToken_verify\<close> is the call
  \<^verbatim>\<open>AgentIdentity.verify(signature, signingInput, payload.iss)\<close> on the signature as
  \<open>AATToken_verify\<close> decodes it from the fourth part; \<open>signature_check\<close> is its outcome.
  It fails with InvalidDIDFormat or with the error of the library, or it answers.
\<close>

lemma AgentIdentity_verify_errors:
  "AgentIdentity_verify lib sig message d = Inl e \<Longrightarrow> e = InvalidDIDFormat \<or> e = CryptoError"
  by (auto simp: AgentIdentity_verify_def didToPublicKey_def
      split: list.splits option.splits sum.splits if_splits)

text \<open>The outcome of \<open>AATToken_verify\<close> on a token whose three documents parse.\<close>

lemma AATToken_verify_outcome:
  assumes "token_payload js token = Some pl"
  shows "\<exists>v hdr chain sig.
           signature_check lib js token = Some v
         \<and> (\<forall>e. v = Inl e \<longrightarrow> e = InvalidDIDFormat \<or> e = CryptoError)
         \<and> AATToken_verify lib js dateNow token options =
             (case v of
                Inl e \<Rightarrow> Inl e
              | Inr isValid \<Rightarrow>
                  if \<not> isValid then Inl InvalidSignature
                  else if exp pl < dateNow div 1000 then Inl TokenExpired
                  else if (case vo_audience options of
                             None \<Rightarrow> False
                           | Some a \<Rightarrow> a \<noteq> [] \<and> aud pl \<noteq> a)
                    then Inl AudienceMismatch
                  else if (case vo_requiredScopes options of
                             None \<Rightarrow> False
                           | Some required \<Rightarrow> \<not> list_all (\<lambda>s. s \<in> set (scope pl)) required)
                    then Inl InsufficientScope
                  else Inr \<lparr>header = hdr, payload = pl, delegationChain = chain,
                            signature = sig\<rparr>)"
proof -
  from token_payload_SomeD [OF assms]
  obtain h p d s hdr chain where parts: "split (CHR ''.'') token = [h, p, d, s]"
    "parse_header js (base64urlDecode h) = Some hdr"
    "parse_payload js (base64urlDecode p) = Some pl"
    "parse_chain js (base64urlDecode d) = Some chain"
    by blast
  let ?v = "AgentIdentity_verify lib (Buffer_from_utf8 (base64urlDecode s))
              (Buffer_from_utf8 (h @ ''.'' @ p @ ''.'' @ d)) (iss pl)"
  have "signature_check lib js token = Some ?v"
    by (rule signature_check_parts [OF parts])
  moreover have "\<forall>e. ?v = Inl e \<longrightarrow> e = InvalidDIDFormat \<or> e = CryptoError"
    using AgentIdentity_verify_errors by blast
  ultimately show ?thesis
    using AATToken_verify_parts [OF parts, of lib dateNow options] by blast
qed

text \<open>
  The order of the gates. When the library answers false on the signature,
  \<open>AATToken_verify\<close> fails with InvalidSignature, whatever the expiry, the audience, the
  scopes and the options, and so does \<open>verifyAgent\<close>, which enforces the constraints
  only on a verified token; and whenever \<open>AATToken_verify\<close> fails with TokenExpired,
  AudienceMismatch or InsufficientScope, the library has answered true.
\<close>

lemma signature_checked_before_claims:
  "(signature_check lib js token = Some (Inr False) \<longrightarrow>
      AATToken_verify lib js dateNow token options = Inl InvalidSignature
      \<and> verifyAgent lib js dateNow timeString token agentOptions = Inl InvalidSignature)
   \<and> (AATToken_verify lib js dateNow token options
        \<in> {Inl TokenExpired, Inl AudienceMismatch, Inl InsufficientScope} \<longrightarrow>
      signature_check lib js token = Some (Inr True))"
proof (intro conjI impI)
  assume f: "signature_check lib js token = Some (Inr False)"
  then obtain pl where pl: "token_payload js token = Some pl"
    using signature_check_payload by blast
  with f show "AATToken_verify lib js dateNow token options = Inl InvalidSignature"
    by (subst AATToken_verify_gates) simp
  have "AATToken_verify lib js dateNow token
          \<lparr>vo_audience = Some (va_audience agentOptions),
           vo_requiredScopes = Some (va_requiredScopes agentOptions)\<rparr> = Inl InvalidSignature"
    using f pl by (subst AATToken_verify_gates) simp
  then show "verifyAgent lib js dateNow timeString token agentOptions = Inl InvalidSignature"
    by (simp add: verifyAgent_def)
next
  assume r: "AATToken_verify lib js dateNow token options
               \<in> {Inl TokenExpired, Inl AudienceMismatch, Inl InsufficientScope}"
  show "signature_check lib js token = Some (Inr True)"
  proof (cases "token_payload js token")
    case None
    with r show ?thesis by (simp add: token_payload_None)
  next
    case (Some pl)
    show ?thesis
    proof (cases "signature_check lib js token")
      case None
      with r Some show ?thesis
        by (subst (asm) AATToken_verify_gates) simp
    next
      case outer: (Some c)
      show ?thesis
      proof (cases c)
        case (Inl e)
        have "AATToken_verify lib js dateNow token options = Inl e"
          by (subst AATToken_verify_gates) (simp add: Some outer Inl)
        moreover have "e \<notin> {TokenExpired, AudienceMismatch, InsufficientScope}"
          using outer Inl Some
          by (auto simp: signature_check_def AgentIdentity_verify_def didToPublicKey_def
              split: list.splits option.splits sum.splits if_splits)
        ultimately show ?thesis using r by auto
      next
        case (Inr ok)
        have "ok"
        proof (rule ccontr)
          assume "\<not> ok"
          then have "AATToken_verify lib js dateNow token options = Inl InvalidSignature"
            by (subst AATToken_verify_gates) (simp add: Some outer Inr)
          with r show False by simp
        qed
        with outer Inr show ?thesis by simp
      qed
    qed
  qed
qed

lemma signature_checked_before_claims_example:
  "signature_check demo_ed25519 demo_JSON demo_forged = Some (Inr False)
   \<and> token_payload demo_JSON demo_forged = Some demo_payload
   \<and> exp demo_payload < 9000000 div 1000
   \<and> aud demo_payload \<noteq> ''https://other.example.com''
   \<and> ''admin'' \<notin> set (scope demo_payload)
   \<and> AATToken_verify demo_ed25519 demo_JSON 9000000 demo_forged
        \<lparr>vo_audience = Some ''https://other.example.com'', vo_requiredScopes = Some [''admin'']\<rparr>
       = Inl InvalidSignature"
  using signature_checked_before_claims [of demo_ed25519 demo_JSON demo_forged 9000000
      "\<lparr>vo_audience = Some ''https://other.example.com'', vo_requiredScopes = Some [''admin'']\<rparr>"]
    demo_forged_signature demo_forged_payload
  by (simp add: demo_payload_def)

text \<open>
  Claim C3 asks for InvalidSignature on every token whose signature does not verify. The
  token below carries 64 bytes 0xFF as its signature, which the library does not accept for
  the issuer: asked about these 64 bytes, it answers false. \<open>AATToken_verify\<close> hands it
  the 192 bytes that the round trip through text makes of them, the library throws, and
  nothing catches the exception: the call fails with the error of the library.
\<close>

theorem tampered_token_fails_with_library_error:
  "ed_verify strict_ed25519 (replicate 64 0xFF)
       (Buffer_from_utf8 (signing_input demo_JSON demo_header demo_payload []))
       (publicKey demo_agent) = Some False
   \<and> length (Buffer_from_utf8 (Buffer_toString_utf8 (replicate 64 0xFF))) = 192
   \<and> signature_check strict_ed25519 demo_JSON demo_tampered = Some (Inl CryptoError)
   \<and> AATToken_verify strict_ed25519 demo_JSON 1000000 demo_tampered no_options
       = Inl CryptoError"
proof -
  let ?m = "Buffer_from_utf8 (signing_input demo_JSON demo_header demo_payload [])"
  let ?sig = "replicate 64 (0xFF :: byte)"
  have raw: "ed_verify strict_ed25519 ?sig ?m (publicKey demo_agent) = Some False"
    by (simp add: strict_ed25519_def demo_ed25519_def demo_tag_def demo_agent_def
        replicate_32 replicate_64)
  have len: "length (utf8_scrub (replicate n 0xFF)) = 3 * n" for n
    by (induction n) (simp_all add: replacement_def)
  have l: "length (Buffer_from_utf8 (Buffer_toString_utf8 ?sig)) = 192"
    by (simp add: Buffer_from_utf8_def Buffer_toString_utf8_def len)
  have "AgentIdentity_verify strict_ed25519 (Buffer_from_utf8 (Buffer_toString_utf8 ?sig)) ?m
          (iss demo_payload) = Inl CryptoError"
    by (simp add: AgentIdentity_verify_def demo_payload_def demo_agent_key strict_ed25519_def l)
  then have sc: "signature_check strict_ed25519 demo_JSON demo_tampered = Some (Inl CryptoError)"
    unfolding demo_tampered_def
      created_token_signature_check [OF demo_header_parsed demo_payload_parsed demo_chain_parsed]
    by simp
  have pl: "token_payload demo_JSON demo_tampered = Some demo_payload"
    unfolding demo_tampered_def
    by (rule created_token_payload [OF demo_header_parsed demo_payload_parsed demo_chain_parsed])
  have "AATToken_verify strict_ed25519 demo_JSON 1000000 demo_tampered no_options
          = Inl CryptoError"
    by (subst AATToken_verify_gates) (simp add: sc pl)
  with raw l sc show ?thesis by simp
qed

text \<open>
  Claim C2, as the code has it. \<open>AATToken_verify\<close> fails with TokenExpired exactly on the
  tokens that pass the gates before the expiry (four parts, three documents that parse, a
  signature step that answers true) and whose \<open>exp\<close> is below the current time in
  seconds, whatever the options. No other token fails with TokenExpired, whatever its
  \<open>exp\<close>: a token that an earlier gate stops is not asked for its expiry.
\<close>

theorem token_expired_iff:
  "(AATToken_verify lib js dateNow token options = Inl TokenExpired)
   = (\<exists>pl. token_payload js token = Some pl
          \<and> signature_check lib js token = Some (Inr True)
          \<and> exp pl < dateNow div 1000)"
proof (cases "token_payload js token")
  case None
  then show ?thesis by (simp add: token_payload_None)
next
  case (Some pl)
  from AATToken_verify_outcome [OF Some, of lib dateNow options]
  obtain v hdr chain sig where "signature_check lib js token = Some v"
    and "\<forall>e. v = Inl e \<longrightarrow> e = InvalidDIDFormat \<or> e = CryptoError"
    and "AATToken_verify lib js dateNow token options =
             (case v of
                Inl e \<Rightarrow> Inl e
              | Inr isValid \<Rightarrow>
                  if \<not> isValid then Inl InvalidSignature
                  else if exp pl < dateNow div 1000 then Inl TokenExpired
                  else if (case vo_audience options of
                             None \<Rightarrow> False
                           | Some a \<Rightarrow> a \<noteq> [] \<and> aud pl \<noteq> a)
                    then Inl AudienceMismatch
                  else if (case vo_requiredScopes options of
                             None \<Rightarrow> False
                           | Some required \<Rightarrow> \<not> list_all (\<lambda>s. s \<in> set (scope pl)) required)
                    then Inl InsufficientScope
                  else Inr \<lparr>header = hdr, payload = pl, delegationChain = chain,
                            signature = sig\<rparr>)"
    by blast
  then show ?thesis
    using Some by (cases v) (auto split: if_splits)
qed

theorem token_expired_iff_witness:
  "token_payload demo_JSON demo_token = Some demo_payload
   \<and> signature_check demo_ed25519 demo_JSON demo_token = Some (Inr True)
   \<and> exp demo_payload < 5000000 div 1000
   \<and> AATToken_verify demo_ed25519 demo_JSON 5000000 demo_token no_options = Inl TokenExpired
   \<and> \<not> exp demo_payload < 1000000 div 1000
   \<and> AATToken_verify demo_ed25519 demo_JSON 1000000 demo_token no_options \<noteq> Inl TokenExpired
   \<and> token_payload demo_JSON demo_token_B = Some demo_payload_B
   \<and> exp demo_payload_B < 5000000 div 1000
   \<and> signature_check demo_ed25519 demo_JSON demo_token_B = Some (Inr False)
   \<and> AATToken_verify demo_ed25519 demo_JSON 5000000 demo_token_B no_options \<noteq> Inl TokenExpired"
proof -
  have e: "exp demo_payload < 5000000 div 1000" "\<not> exp demo_payload < 1000000 div 1000"
    "exp demo_payload_B < 5000000 div 1000"
    by (simp_all add: demo_payload_def demo_payload_B_def)
  have "AATToken_verify demo_ed25519 demo_JSON 5000000 demo_token no_options = Inl TokenExpired"
    using token_expired_iff [of demo_ed25519 demo_JSON 5000000 demo_token no_options]
      demo_token_payload demo_token_signature e
    by simp
  moreover
  have "AATToken_verify demo_ed25519 demo_JSON 1000000 demo_token no_options \<noteq> Inl TokenExpired"
    using token_expired_iff [of demo_ed25519 demo_JSON 1000000 demo_token no_options]
      demo_token_payload e
    by simp
  moreover
  have "AATToken_verify demo_ed25519 demo_JSON 5000000 demo_token_B no_options \<noteq> Inl TokenExpired"
    using token_expired_iff [of demo_ed25519 demo_JSON 5000000 demo_token_B no_options]
      demo_token_B_signature
    by simp
  ultimately show ?thesis
    using demo_token_payload demo_token_signature demo_token_B_signature demo_token_B_payload e
    by simp
qed

text \<open>
  Claim C2, as stated, asks for TokenExpired whether the signature is valid or not. The
  forged token carries a payload that expired at 4600; at 5000 seconds it fails with
  InvalidSignature.
\<close>

theorem expired_forged_token_is_invalid_signature:
  "token_payload demo_JSON demo_forged = Some demo_payload
   \<and> exp demo_payload < 5000000 div 1000
   \<and> AATToken_verify demo_ed25519 demo_JSON 5000000 demo_forged no_options = Inl InvalidSignature
   \<and> AATToken_verify demo_ed25519 demo_JSON 5000000 demo_forged no_options \<noteq> Inl TokenExpired"
proof -
  have "AATToken_verify demo_ed25519 demo_JSON 5000000 demo_forged no_options = Inl InvalidSignature"
    by (subst AATToken_verify_gates) (simp add: demo_forged_signature demo_forged_payload)
  then show ?thesis
    using demo_forged_payload by (simp add: demo_payload_def)
qed

text \<open>
  Claim C7, as the code has it. \<open>AATToken_verify\<close> fails with InsufficientScope exactly
  when the token passes the gates before the scope check (four parts, three documents that
  parse, a signature step that answers true, an \<open>exp\<close> that is not below the current time,
  an audience option that is absent, empty or equal to \<open>aud\<close>), a list of required scopes
  is given and it is not a subset of the scope list of the payload; membership is equality of
  strings.
\<close>

theorem insufficient_scope_iff:
  "(AATToken_verify lib js dateNow token options = Inl InsufficientScope)
   = (\<exists>pl S. token_payload js token = Some pl
          \<and> signature_check lib js token = Some (Inr True)
          \<and> \<not> exp pl < dateNow div 1000
          \<and> (vo_audience options = None \<or> vo_audience options = Some []
               \<or> vo_audience options = Some (aud pl))
          \<and> vo_requiredScopes options = Some S
          \<and> \<not> set S \<subseteq> set (scope pl))"
proof (cases "token_payload js token")
  case None
  then show ?thesis by (simp add: token_payload_None)
next
  case (Some pl)
  from AATToken_verify_outcome [OF Some, of lib dateNow options]
  obtain v hdr chain sig where "signature_check lib js token = Some v"
    and "\<forall>e. v = Inl e \<longrightarrow> e = InvalidDIDFormat \<or> e = CryptoError"
    and "AATToken_verify lib js dateNow token options =
             (case v of
                Inl e \<Rightarrow> Inl e
              | Inr isValid \<Rightarrow>
                  if \<not> isValid then Inl InvalidSignature
                  else if exp pl < dateNow div 1000 then Inl TokenExpired
                  else if (case vo_audience options of
                             None \<Rightarrow> False
                           | Some a \<Rightarrow> a \<noteq> [] \<and> aud pl \<noteq> a)
                    then Inl AudienceMismatch
                  else if (case vo_requiredScopes options of
                             None \<Rightarrow> False
                           | Some required \<Rightarrow> \<not> list_all (\<lambda>s. s \<in> set (scope pl)) required)
                    then Inl InsufficientScope
                  else Inr \<lparr>header = hdr, payload = pl, delegationChain = chain,
                            signature = sig\<rparr>)"
    by blast
  then show ?thesis
    using Some
    by (cases v) (auto simp: list_all_iff split: if_splits option.splits)
qed

theorem insufficient_scope_iff_witness:
  "signature_check demo_ed25519 demo_JSON demo_token = Some (Inr True)
   \<and> token_payload demo_JSON demo_token = Some demo_payload
   \<and> \<not> exp demo_payload < 1000000 div 1000
   \<and> scope demo_payload = [''mail.read'']
   \<and> AATToken_verify demo_ed25519 demo_JSON 1000000 demo_token
        \<lparr>vo_audience = Some ''https://api.example.com'', vo_requiredScopes = Some [''mail.read'']\<rparr>
       \<noteq> Inl InsufficientScope
   \<and> AATToken_verify demo_ed25519 demo_JSON 1000000 demo_token
        \<lparr>vo_audience = Some ''https://api.example.com'', vo_requiredScopes = Some [''mail.*'']\<rparr>
       = Inl InsufficientScope
   \<and> AATToken_verify demo_ed25519 demo_JSON 1000000 demo_token
        \<lparr>vo_audience = None, vo_requiredScopes = Some [''mail.read'', ''mail.send'']\<rparr>
       = Inl InsufficientScope
   \<and> AATToken_verify demo_ed25519 demo_JSON 1000000 demo_token_B
        \<lparr>vo_audience = None, vo_requiredScopes = Some [''mail.send'']\<rparr>
       \<noteq> Inl InsufficientScope"
proof -
  have e: "\<not> exp demo_payload < 1000000 div 1000"
    by (simp add: demo_payload_def)
  note s = demo_token_signature
  note p = demo_token_payload
  have "AATToken_verify demo_ed25519 demo_JSON 1000000 demo_token
          \<lparr>vo_audience = Some ''https://api.example.com'', vo_requiredScopes = Some [''mail.read'']\<rparr>
        \<noteq> Inl InsufficientScope"
    by (subst insufficient_scope_iff) (simp add: s p demo_payload_def)
  moreover have "AATToken_verify demo_ed25519 demo_JSON 1000000 demo_token
          \<lparr>vo_audience = Some ''https://api.example.com'', vo_requiredScopes = Some [''mail.*'']\<rparr>
        = Inl InsufficientScope"
    by (subst insufficient_scope_iff) (simp add: s p demo_payload_def)
  moreover have "AATToken_verify demo_ed25519 demo_JSON 1000000 demo_token
          \<lparr>vo_audience = None, vo_requiredScopes = Some [''mail.read'', ''mail.send'']\<rparr>
        = Inl InsufficientScope"
    by (subst insufficient_scope_iff) (simp add: s p demo_payload_def)
  moreover have "AATToken_verify demo_ed25519 demo_JSON 1000000 demo_token_B
          \<lparr>vo_audience = None, vo_requiredScopes = Some [''mail.send'']\<rparr>
        \<noteq> Inl InsufficientScope"
    by (subst insufficient_scope_iff) (simp add: demo_token_B_signature)
  ultimately show ?thesis
    using s p e by (simp add: demo_payload_def)
qed

text \<open>
  Claim C7, as stated, speaks of every token. The token of the example has expired at 5000
  seconds: with a required scope that it does not grant, it fails with TokenExpired.
\<close>

theorem missing_scope_on_expired_token:
  "token_payload demo_JSON demo_token = Some demo_payload
   \<and> \<not> set [''mail.send''] \<subseteq> set (scope demo_payload)
   \<and> AATToken_verify demo_ed25519 demo_JSON 5000000 demo_token
        \<lparr>vo_audience = None, vo_requiredScopes = Some [''mail.send'']\<rparr>
       = Inl TokenExpired"
proof -
  have "AATToken_verify demo_ed25519 demo_JSON 5000000 demo_token
          \<lparr>vo_audience = None, vo_requiredScopes = Some [''mail.send'']\<rparr> = Inl TokenExpired"
    by (subst AATToken_verify_gates)
       (simp add: demo_token_signature demo_token_payload demo_payload_def)
  then show ?thesis
    using demo_token_payload by (simp add: demo_payload_def)
qed

text \<open>
  The same happens to a signature of the real scheme: of its 64 bytes, 110 come back.
\<close>

lemma rfc8032_signature_decoded:
  "length rfc8032_signature = 64
   \<and> length (Buffer_from_utf8 (Buffer_toString_utf8 rfc8032_signature)) = 110
   \<and> take 4 (Buffer_from_utf8 (Buffer_toString_utf8 rfc8032_signature)) = [0xEF, 0xBF, 0xBD, 0x09]"
  by (simp add: rfc8032_signature_def Buffer_from_utf8_def Buffer_toString_utf8_def
      replacement_def is_cont_def second_ok_def)

text \<open>
  Claim C1 asks that the token returned by \<open>AATToken_create\<close> verifies. The second agent
  creates a token for the options of the scenario; its signature is valid for its DID when it
  is handed to the library as it is. \<open>AATToken_verify\<close>, at the very time of creation and
  with no options, turns the signature into text and back before the check, and fails with
  InvalidSignature.
\<close>

theorem created_token_fails_verification:
  "AATToken_create demo_ed25519 demo_JSON 1000000 demo_random
     (demo_options\<lparr>identity := demo_agent_B\<rparr>) = Inr demo_token_B
   \<and> AgentIdentity_verify demo_ed25519
       (demo_tag (publicKey demo_agent_B)
          (Buffer_from_utf8 (signing_input demo_JSON demo_header_B demo_payload_B [])))
       (Buffer_from_utf8 (signing_input demo_JSON demo_header_B demo_payload_B []))
       (did demo_agent_B) = Inr True
   \<and> AATToken_verify demo_ed25519 demo_JSON 1000000 demo_token_B no_options
       = Inl InvalidSignature"
proof -
  have "AgentIdentity_verify demo_ed25519
       (demo_tag (publicKey demo_agent_B)
          (Buffer_from_utf8 (signing_input demo_JSON demo_header_B demo_payload_B [])))
       (Buffer_from_utf8 (signing_input demo_JSON demo_header_B demo_payload_B []))
       (did demo_agent_B) = Inr True"
    by (simp add: AgentIdentity_verify_def demo_agent_B_key demo_ed25519_def)
       (simp add: demo_agent_B_def)
  moreover have "AATToken_verify demo_ed25519 demo_JSON 1000000 demo_token_B no_options
       = Inl InvalidSignature"
    by (subst AATToken_verify_gates) (simp add: demo_token_B_signature demo_token_B_payload)
  ultimately show ?thesis
    using demo_create_B by simp
qed

end
